theory Spec2Isabelle
  imports Main "HOL-Library.Word" "HOL-Library.Monad_Syntax"
begin

unbundle bit_operations_syntax

section \<open>Data model of sntp\_ex\_lib\_ti.h\<close>

text \<open>
  The library is compiled for a 32-bit little-endian host (\<open>_CPU_BIG_ENDIAN\<close> is not
  defined, so the \<open>#else\<close> branch of the bit-field layout applies) with
  \<open>exlibSNTP_CLIENT_USE_NONBLOCKING_TIMEOUT_OPTION\<close> defined, as the header does.
  \<open>uint8_t\<close>, \<open>uint32_t\<close>, \<open>uint64_t\<close> are \<open>8 word\<close>, \<open>32 word\<close>, \<open>64 word\<close>;
  \<open>int32_t\<close> return codes are \<open>32 word\<close> read with \<open>sint\<close>; \<open>size_t\<close> is \<open>32 word\<close>.
\<close>

datatype sntp_ud_t =
    SNTPEX_SUCCESS
  | SNTPEX_ERROR
  | SNTPEX_ERR_SOCKET_CREATE
  | SNTPEX_ERR_SOCKET_SET_OPT
  | SNTPEX_ERR_FAULT_INIT
  | SNTPEX_ERR_DNS_RESOLVE
  | SNTPEX_ERR_NULL_PTR
  | SNTPEX_ERR_RX
  | SNTPEX_ERR_TX
  | SNTPEX_ERR_REQUEST_REJECTED
  | SNTPEX_ERR_INVALID_MESSAGE
  | SNTPEX_ERR_TIMEOUT

datatype udSntpClientState =
    UD_SNTP_CLIENT_STATE_OPEN
  | UD_SNTP_CLIENT_STATE_SENDING
  | UD_SNTP_CLIENT_STATE_RECEIVING
  | UD_SNTP_CLIENT_STATE_HANDLING_RSP
  | UD_SNTP_CLIENT_STATE_CLOSE
  | UD_SNTP_CLIENT_STATE_COMPLETE

text \<open>A pointer argument of the public API: only whether it is NULL matters.\<close>

datatype pointer = NULL | NonNULL

record NtpTimestamp =
  seconds :: "32 word"
  fraction :: "32 word"

text \<open>The \<open>val\<close> member of the union: the same eight bytes read as one 64-bit value.\<close>

definition val :: "NtpTimestamp \<Rightarrow> 64 word" where
  "val t = ucast (seconds t) OR push_bit 32 (ucast (fraction t))"

record xTimestampCtx_t =
  referenceTimestamp :: NtpTimestamp
  originateTimestamp :: NtpTimestamp
  receiveTimestamp :: NtpTimestamp
  transmitTimestamp :: NtpTimestamp
  originate64_ts :: "64 word"
  reference64_ts :: "64 word"
  receive64_ts :: "64 word"
  transmit64_ts :: "64 word"

record vsocket =
  fd :: int

text \<open>A registered callback is a function pointer; the model keeps its identity.\<close>

type_synonym pf_eventCallback = nat

record ux_sntpAsynchEvent =
  timestamp :: "64 word"
  event_cb :: "pf_eventCallback option"
  SR :: "8 word"

text \<open>
  The client handle. \<open>vtable_api\<close> and \<open>xTimestampList\<close> are pointers to the time
  source and to the caller's record; what they point to lives in the system state below.
\<close>

record sntpex_client_handle_t =
  sock :: "vsocket option"
  timeout :: "32 word"
  startTime :: "32 word"
  state :: udSntpClientState
  payload :: "8 word list"
  payloadLen :: "32 word"
  kissCode :: "32 word"
  expected_orig_ts :: "32 word"

definition exlibSNTP_TIME_MESSAGE_MAX_SIZE :: nat where
  "exlibSNTP_TIME_MESSAGE_MAX_SIZE = 68"

definition exlibSNTP_SOFTSR_RECV_BIT :: "8 word" where
  "exlibSNTP_SOFTSR_RECV_BIT = push_bit 0 1"

definition exlibSNTP_SOFTSR_SEND_BIT :: "8 word" where
  "exlibSNTP_SOFTSR_SEND_BIT = push_bit 1 1"

definition exlibDIFF_SEC_1900_1970 :: "64 word" where
  "exlibDIFF_SEC_1900_1970 = 2208988800"

definition specNTP_VERSION_V4 :: "8 word" where
  "specNTP_VERSION_V4 = 4"

definition specNTP_MODE_CLIENT :: "8 word" where
  "specNTP_MODE_CLIENT = 3"

definition specNTP_MODE_SERVER :: "8 word" where
  "specNTP_MODE_SERVER = 4"

definition specNTP_MODE_BROADCAST :: "8 word" where
  "specNTP_MODE_BROADCAST = 5"

text \<open>
  Modelled from the spec: the transport's "would block" result \<open>SLNETERR_BSD_EAGAIN\<close>
  comes from the platform header \<open>ti/net/slneterr.h\<close>, which is not part of the
  sources; it is the negative errno value -11 there.
\<close>

definition SLNETERR_BSD_EAGAIN :: "32 word" where
  "SLNETERR_BSD_EAGAIN = - 11"

text \<open>
  Modelled from the spec: \<open>SlNetUtil_htonl\<close> and \<open>SlNetUtil_ntohl\<close> come from the
  platform library, which is not part of the sources. The spec asks for an explicit
  conversion between big-endian and host order; on the little-endian host this reverses
  the four bytes of the value.
\<close>

definition SlNetUtil_htonl :: "32 word \<Rightarrow> 32 word" where
  "SlNetUtil_htonl v =
     push_bit 24 (v AND 0xFF) OR push_bit 8 (v AND 0xFF00) OR
     (drop_bit 8 v AND 0xFF00) OR (drop_bit 24 v AND 0xFF)"

definition SlNetUtil_ntohl :: "32 word \<Rightarrow> 32 word" where
  "SlNetUtil_ntohl v = SlNetUtil_htonl v"

subsection \<open>The wire record laid over the payload bytes\<close>

text \<open>
  \<open>struct x_sntp_request\<close> is packed: one byte of bit-fields (\<open>mode\<close> in bits 0-2,
  \<open>vn\<close> in bits 3-5, \<open>li\<close> in bits 6-7), stratum, poll, precision, three 32-bit words
  and four 8-byte timestamps. The code casts the payload buffer to this struct, so a
  field is read from the bytes at its offset, in host order.
\<close>

definition sizeof_x_sntp_request :: "32 word" where
  "sizeof_x_sntp_request = 1 + 1 + 1 + 1 + 4 + 4 + 4 + 8 + 8 + 8 + 8"

definition host_u32 :: "8 word list \<Rightarrow> nat \<Rightarrow> 32 word" where
  "host_u32 bs off =
     ucast (bs ! off) OR push_bit 8 (ucast (bs ! (off + 1))) OR
     push_bit 16 (ucast (bs ! (off + 2))) OR push_bit 24 (ucast (bs ! (off + 3)))"

definition store_u32 :: "8 word list \<Rightarrow> nat \<Rightarrow> 32 word \<Rightarrow> 8 word list" where
  "store_u32 bs off w =
     bs[off := ucast w, off + 1 := ucast (drop_bit 8 w),
        off + 2 := ucast (drop_bit 16 w), off + 3 := ucast (drop_bit 24 w)]"

definition host_ts :: "8 word list \<Rightarrow> nat \<Rightarrow> NtpTimestamp" where
  "host_ts bs off = \<lparr>seconds = host_u32 bs off, fraction = host_u32 bs (off + 4)\<rparr>"

definition req_mode :: "8 word list \<Rightarrow> 8 word" where
  "req_mode bs = (bs ! 0) AND 7"

definition req_vn :: "8 word list \<Rightarrow> 8 word" where
  "req_vn bs = drop_bit 3 (bs ! 0) AND 7"

definition req_stratum :: "8 word list \<Rightarrow> 8 word" where
  "req_stratum bs = bs ! 1"

definition req_referenceId :: "8 word list \<Rightarrow> 32 word" where
  "req_referenceId bs = host_u32 bs 12"

definition req_referenceTimestamp :: "8 word list \<Rightarrow> NtpTimestamp" where
  "req_referenceTimestamp bs = host_ts bs 16"

definition req_originateTimestamp :: "8 word list \<Rightarrow> NtpTimestamp" where
  "req_originateTimestamp bs = host_ts bs 24"

definition req_receiveTimestamp :: "8 word list \<Rightarrow> NtpTimestamp" where
  "req_receiveTimestamp bs = host_ts bs 32"

definition req_transmitTimestamp :: "8 word list \<Rightarrow> NtpTimestamp" where
  "req_transmitTimestamp bs = host_ts bs 40"

definition set_req_vn :: "8 word \<Rightarrow> 8 word list \<Rightarrow> 8 word list" where
  "set_req_vn v bs = bs[0 := ((bs ! 0) AND NOT 0x38) OR push_bit 3 (v AND 7)]"

definition set_req_mode :: "8 word \<Rightarrow> 8 word list \<Rightarrow> 8 word list" where
  "set_req_mode m bs = bs[0 := ((bs ! 0) AND NOT 7) OR (m AND 7)]"

definition memset0 :: "8 word list \<Rightarrow> nat \<Rightarrow> 8 word list" where
  "memset0 bs n = replicate n 0 @ drop n bs"

section \<open>Timestamp converter\<close>

text \<open>
  \<open>prv_utility_frac_to_usecs\<close>: the loop \<open>for (index = 2; index < 32; index += 6)\<close>
  on \<open>uint32_t\<close> values.
\<close>

function frac_loop :: "32 word \<Rightarrow> nat \<Rightarrow> 32 word \<Rightarrow> 32 word" where
  "frac_loop frac index value =
     (if index < 32 then
        (let segment = drop_bit index frac AND 0x3F
         in frac_loop frac (index + 6)
              (if 32 \<le> (value AND 0x3F)
               then drop_bit 6 value + segment * 15625 + 1
               else drop_bit 6 value + segment * 15625))
      else value)"
  by pat_completeness auto
termination
  by (relation "measure (\<lambda>(frac, index, value). 32 - index)") auto

definition prv_utility_frac_to_usecs :: "32 word \<Rightarrow> 32 word" where
  "prv_utility_frac_to_usecs frac = frac_loop frac 2 0"

text \<open>
  \<open>prv_utility_ntp_to_epoch\<close>. The source is C99 (it uses designated initialisers), and
  there the unsuffixed decimal constant 2208988800, which does not fit a 32-bit \<open>int\<close>
  or \<open>long\<close>, has a signed 64-bit type. So the subtraction and the multiplication are
  done in signed 64 bits, where they cannot overflow, and the cast to \<open>uint64_t\<close> keeps
  the two's complement bits.
\<close>

definition prv_utility_ntp_to_epoch :: "32 word \<Rightarrow> 32 word \<Rightarrow> 64 word" where
  "prv_utility_ntp_to_epoch ulSeconds ulFraction =
     (ucast ulSeconds - exlibDIFF_SEC_1900_1970) * 1000000 +
     ucast (prv_utility_frac_to_usecs ulFraction)"

text \<open>
  The fraction conversion as the specification words it: five six-bit chunks at the
  offsets 2, 8, 14, 20, 26; each step replaces the accumulator by the accumulator
  shifted right by 6 plus chunk times 15625, plus 1 when the low six bits of the
  accumulator before the shift are at least 32. On natural numbers, without wrap-around.
\<close>

definition spec_chunk :: "nat \<Rightarrow> nat \<Rightarrow> nat" where
  "spec_chunk F off = (F div 2 ^ off) mod 64"

definition spec_frac_step :: "nat \<Rightarrow> nat \<Rightarrow> nat" where
  "spec_frac_step acc chunk =
     acc div 64 + chunk * 15625 + (if 32 \<le> acc mod 64 then 1 else 0)"

definition spec_frac_to_usecs :: "nat \<Rightarrow> nat" where
  "spec_frac_to_usecs F =
     fold (\<lambda>off acc. spec_frac_step acc (spec_chunk F off)) [2, 8, 14, 20, 26] 0"

section \<open>The system: client handle, module globals and collaborators\<close>

text \<open>
  One result of \<open>SlNetSock_recvFrom\<close>: the return code, the bytes of the datagram, and
  whether the spawn task ran \<open>sntpex_eventTriggingFromISR\<close> while the call was pending.
\<close>

datatype recv_result = Recv (recv_rc: "32 word") (recv_data: "8 word list") (recv_isr: bool)

text \<open>
  The state the code works on: the handle \<open>p_client\<close> points to, the caller's record
  \<open>p_client->xTimestampList\<close> points to, the globals \<open>xsntpAsynchEvent\<close> and
  \<open>pg_vtable_api\<close>, and the external collaborators. A collaborator is a script: the
  list of the results of its successive calls. \<open>open_fds\<close> are the descriptors the
  transport holds open; \<open>cb_calls\<close> records the callback invocations.
\<close>

record system =
  client :: sntpex_client_handle_t
  xTimestampList :: xTimestampCtx_t
  xsntpAsynchEvent :: ux_sntpAsynchEvent
  pg_vtable_api :: pointer
  os_ticks :: "32 word list"
  unix_timestamps :: "64 word list"
  sock_create :: "int list"
  sock_setopt :: "32 word list"
  sock_sendto :: "32 word list"
  sock_recvfrom :: "recv_result list"
  open_fds :: "int list"
  cb_calls :: "(pf_eventCallback \<times> 8 word) list"

text \<open>
  A function of the model returns \<open>None\<close> when a script is exhausted (the model does
  not know how the collaborator answers) or when the code dereferences a NULL socket.
\<close>

definition get_os_tick :: "system \<Rightarrow> (32 word \<times> system) option" where
  "get_os_tick s =
     (case os_ticks s of [] \<Rightarrow> None | t # ts \<Rightarrow> Some (t, s\<lparr>os_ticks := ts\<rparr>))"

definition get_unix_timestamp :: "system \<Rightarrow> (64 word \<times> system) option" where
  "get_unix_timestamp s =
     (case unix_timestamps s of [] \<Rightarrow> None
      | t # ts \<Rightarrow> Some (t, s\<lparr>unix_timestamps := ts\<rparr>))"

definition SlNetSock_close :: "int \<Rightarrow> system \<Rightarrow> system" where
  "SlNetSock_close d s = s\<lparr>open_fds := removeAll d (open_fds s)\<rparr>"

definition SlNetSock_create :: "system \<Rightarrow> (int \<times> system) option" where
  "SlNetSock_create s =
     (case sock_create s of [] \<Rightarrow> None
      | d # ds \<Rightarrow>
          Some (d, s\<lparr>sock_create := ds,
                      open_fds := (if 0 \<le> d then d # open_fds s else open_fds s)\<rparr>))"

definition SlNetSock_setOpt :: "system \<Rightarrow> (32 word \<times> system) option" where
  "SlNetSock_setOpt s =
     (case sock_setopt s of [] \<Rightarrow> None | r # rs \<Rightarrow> Some (r, s\<lparr>sock_setopt := rs\<rparr>))"

definition SlNetSock_sendTo :: "system \<Rightarrow> (32 word \<times> system) option" where
  "SlNetSock_sendTo s =
     (case sock_sendto s of [] \<Rightarrow> None | r # rs \<Rightarrow> Some (r, s\<lparr>sock_sendto := rs\<rparr>))"

subsection \<open>Async event bridge\<close>

definition prv_utility_register_event ::
    "8 word \<Rightarrow> pf_eventCallback option \<Rightarrow> system \<Rightarrow> system" where
  "prv_utility_register_event eventbitField cb s =
     s\<lparr>xsntpAsynchEvent := (xsntpAsynchEvent s)
          \<lparr>event_cb := cb, SR := SR (xsntpAsynchEvent s) OR eventbitField\<rparr>\<rparr>"

definition prv_utility_unregister_event :: "8 word \<Rightarrow> system \<Rightarrow> system" where
  "prv_utility_unregister_event eventbitField s =
     s\<lparr>xsntpAsynchEvent := (xsntpAsynchEvent s)
          \<lparr>timestamp := 0, event_cb := None,
           SR := SR (xsntpAsynchEvent s) AND NOT eventbitField\<rparr>\<rparr>"

text \<open>The body of one branch of the handler: clear the bit, take the time, call back.\<close>

definition isr_drain :: "8 word \<Rightarrow> system \<Rightarrow> (sntp_ud_t \<times> system) option" where
  "isr_drain eventbit s = do {
     let s1 = s\<lparr>xsntpAsynchEvent := (xsntpAsynchEvent s)
                 \<lparr>SR := SR (xsntpAsynchEvent s) AND NOT eventbit\<rparr>\<rparr>;
     (t, s2) \<leftarrow> get_unix_timestamp s1;
     let s3 = s2\<lparr>xsntpAsynchEvent := (xsntpAsynchEvent s2)\<lparr>timestamp := t\<rparr>\<rparr>;
     Some (SNTPEX_SUCCESS,
       (case event_cb (xsntpAsynchEvent s3) of
          None \<Rightarrow> s3
        | Some cb \<Rightarrow> s3\<lparr>cb_calls := cb_calls s3 @ [(cb, eventbit)]\<rparr>))
   }"

text \<open>
  \<open>sntpex_eventTriggingFromISR\<close>. The two branch conditions are written with the
  logical \<open>&&\<close> in the source: each is true when both operands are non-zero.
\<close>

definition sntpex_eventTriggingFromISR :: "system \<Rightarrow> (sntp_ud_t \<times> system) option" where
  "sntpex_eventTriggingFromISR s =
     (if pg_vtable_api s = NULL \<or> SR (xsntpAsynchEvent s) = 0
      then Some (SNTPEX_ERR_FAULT_INIT, s)
      else if SR (xsntpAsynchEvent s) \<noteq> 0 \<and> exlibSNTP_SOFTSR_RECV_BIT \<noteq> 0
      then isr_drain exlibSNTP_SOFTSR_RECV_BIT s
      else if SR (xsntpAsynchEvent s) \<noteq> 0 \<and> exlibSNTP_SOFTSR_SEND_BIT \<noteq> 0
      then isr_drain exlibSNTP_SOFTSR_SEND_BIT s
      else Some (SNTPEX_SUCCESS, s))"

text \<open>
  \<open>SlNetSock_recvFrom\<close> copies at most \<open>payloadLen\<close> bytes of the datagram to the
  start of the payload buffer; the event handler may have run before it returns.
\<close>

definition recv_fill :: "8 word list \<Rightarrow> 32 word \<Rightarrow> 8 word list \<Rightarrow> 8 word list" where
  "recv_fill dat len buf =
     (let n = min (length dat) (unat len) in take n dat @ drop n buf)"

definition SlNetSock_recvFrom :: "system \<Rightarrow> (32 word \<times> system) option" where
  "SlNetSock_recvFrom s =
     (case sock_recvfrom s of
        [] \<Rightarrow> None
      | r # rs \<Rightarrow> do {
          let s1 = s\<lparr>sock_recvfrom := rs,
                     client := (client s)
                       \<lparr>payload := recv_fill (recv_data r) (payloadLen (client s))
                                     (payload (client s))\<rparr>\<rparr>;
          s2 \<leftarrow> (if recv_isr r then map_option snd (sntpex_eventTriggingFromISR s1)
                 else Some s1);
          Some (recv_rc r, s2)
        })"

subsection \<open>Packet codec: the request\<close>

definition prv_utility_build_request :: "system \<Rightarrow> (sntp_ud_t \<times> system) option" where
  "prv_utility_build_request s = do {
     let request = memset0 (payload (client s)) (unat sizeof_x_sntp_request);
     let request = set_req_vn specNTP_VERSION_V4 request;
     let request = set_req_mode specNTP_MODE_CLIENT request;
     let request = request[1 := 2, 2 := 0x06, 3 := 0xec];
     (tick, s1) \<leftarrow> get_os_tick s;
     let request = store_u32 request 40 0;
     let request = store_u32 request 44 (SlNetUtil_htonl tick);
     Some (SNTPEX_SUCCESS,
       s1\<lparr>client := (client s1)
            \<lparr>expected_orig_ts := tick, payload := request,
             payloadLen := sizeof_x_sntp_request\<rparr>\<rparr>)
   }"

subsection \<open>State handlers\<close>

definition sFct_sntp_OpenConnection :: "system \<Rightarrow> (sntp_ud_t \<times> system) option" where
  "sFct_sntp_OpenConnection s =
     (case sock (client s) of
        None \<Rightarrow> Some (SNTPEX_ERR_NULL_PTR, s)
      | Some p_socket \<Rightarrow> do {
          let s1 = (if fd p_socket \<noteq> - 1
                    then (SlNetSock_close (fd p_socket) s)
                           \<lparr>client := (client s)\<lparr>sock := Some (p_socket\<lparr>fd := - 1\<rparr>)\<rparr>\<rparr>
                    else s);
          (d, s2) \<leftarrow> SlNetSock_create s1;
          let s3 = s2\<lparr>client := (client s2)\<lparr>sock := Some (p_socket\<lparr>fd := d\<rparr>)\<rparr>\<rparr>;
          if d < 0 then Some (SNTPEX_ERR_SOCKET_CREATE, s3)
          else do {
            (SLReturnCode, s4) \<leftarrow> SlNetSock_setOpt s3;
            if sint SLReturnCode < 0 then Some (SNTPEX_ERR_SOCKET_SET_OPT, s4)
            else Some (SNTPEX_SUCCESS,
                   s4\<lparr>client := (client s4)\<lparr>state := UD_SNTP_CLIENT_STATE_SENDING\<rparr>\<rparr>)
          }
        })"

text \<open>
  The polling loops of the non-blocking build:
  \<open>do { rc = sendTo(...) } while (rc == EAGAIN && (get_os_tick() - ulTickStart) < timeout)\<close>.
  The tick is read only when the transport reported "would block".
\<close>

function send_loop :: "32 word \<Rightarrow> system \<Rightarrow> (32 word \<times> system) option" where
  "send_loop ulTickStart s =
     (case SlNetSock_sendTo s of
        None \<Rightarrow> None
      | Some (SLReturnCode, s1) \<Rightarrow>
          if SLReturnCode = SLNETERR_BSD_EAGAIN then
            (case get_os_tick s1 of
               None \<Rightarrow> None
             | Some (now, s2) \<Rightarrow>
                 if now - ulTickStart < timeout (client s2) then send_loop ulTickStart s2
                 else Some (SLReturnCode, s2))
          else Some (SLReturnCode, s1))"
  by pat_completeness auto
termination
proof (relation "measure (\<lambda>(ulTickStart, s). length (sock_sendto s))")
  show "wf (measure (\<lambda>(ulTickStart, s). length (sock_sendto s)))" by simp
next
  fix ulTickStart s x2 SLReturnCode s1 x2' now s2
  assume "SlNetSock_sendTo s = Some x2" "(SLReturnCode, s1) = x2"
    "get_os_tick s1 = Some x2'" "(now, s2) = x2'"
  then show "((ulTickStart, s2), (ulTickStart, s)) \<in> measure (\<lambda>(ulTickStart, s). length (sock_sendto s))"
    by (auto simp add: SlNetSock_sendTo_def get_os_tick_def split: list.splits)
qed

declare send_loop.simps [simp del]

function recv_loop :: "32 word \<Rightarrow> system \<Rightarrow> (32 word \<times> system) option" where
  "recv_loop ulTickStart s =
     (case SlNetSock_recvFrom s of
        None \<Rightarrow> None
      | Some (SLReturnCode, s1) \<Rightarrow>
          if SLReturnCode = SLNETERR_BSD_EAGAIN then
            (case get_os_tick s1 of
               None \<Rightarrow> None
             | Some (now, s2) \<Rightarrow>
                 if now - ulTickStart < timeout (client s2) then recv_loop ulTickStart s2
                 else Some (SLReturnCode, s2))
          else Some (SLReturnCode, s1))"
  by pat_completeness auto
termination
proof (relation "measure (\<lambda>(ulTickStart, s). length (sock_recvfrom s))")
  show "wf (measure (\<lambda>(ulTickStart, s). length (sock_recvfrom s)))" by simp
next
  fix ulTickStart s x2 SLReturnCode s1 x2' now s2
  assume "SlNetSock_recvFrom s = Some x2" "(SLReturnCode, s1) = x2"
    "get_os_tick s1 = Some x2'" "(now, s2) = x2'"
  then show "((ulTickStart, s2), (ulTickStart, s)) \<in> measure (\<lambda>(ulTickStart, s). length (sock_recvfrom s))"
    by (auto simp add: SlNetSock_recvFrom_def get_os_tick_def sntpex_eventTriggingFromISR_def
          isr_drain_def get_unix_timestamp_def Let_def
        split: list.splits if_splits option.splits Option.bind_splits)
qed

declare recv_loop.simps [simp del]

definition sFct_sntp_SendRequest :: "system \<Rightarrow> (sntp_ud_t \<times> system) option" where
  "sFct_sntp_SendRequest s = do {
     (rc_build, s1) \<leftarrow> prv_utility_build_request s;
     (t1, s2) \<leftarrow> get_unix_timestamp s1;
     let s3 = s2\<lparr>xTimestampList := (xTimestampList s2)\<lparr>originate64_ts := t1\<rparr>\<rparr>;
     (ulTickStart, s4) \<leftarrow> get_os_tick s3;
     (SLReturnCode, s5) \<leftarrow>
       (case sock (client s4) of None \<Rightarrow> None | Some p_socket \<Rightarrow> send_loop ulTickStart s4);
     if SLNETERR_BSD_EAGAIN = SLReturnCode then Some (SNTPEX_ERR_TIMEOUT, s5)
     else if sint SLReturnCode < 0 \<or> SLReturnCode \<noteq> payloadLen (client s5)
       then Some (SNTPEX_ERR_TX, s5)
     else Some (SNTPEX_SUCCESS,
            s5\<lparr>client := (client s5)
                 \<lparr>payload := memset0 (payload (client s5)) (unat (payloadLen (client s5))),
                  state := UD_SNTP_CLIENT_STATE_RECEIVING\<rparr>\<rparr>)
   }"

definition sFct_sntp_ReceiveResponse :: "system \<Rightarrow> (sntp_ud_t \<times> system) option" where
  "sFct_sntp_ReceiveResponse s = do {
     let s1 = prv_utility_register_event exlibSNTP_SOFTSR_RECV_BIT None s;
     (ulTickStart, s2) \<leftarrow> get_os_tick s1;
     (SLReturnCode, s3) \<leftarrow>
       (case sock (client s2) of None \<Rightarrow> None | Some p_socket \<Rightarrow> recv_loop ulTickStart s2);
     if SLNETERR_BSD_EAGAIN = SLReturnCode then Some (SNTPEX_ERR_TIMEOUT, s3)
     else if sint SLReturnCode < 0 then Some (SNTPEX_ERR_RX, s3)
     else if SLReturnCode \<noteq> payloadLen (client s3) then Some (SNTPEX_ERR_INVALID_MESSAGE, s3)
     else if timestamp (xsntpAsynchEvent s3) = 0 then Some (SNTPEX_ERR_INVALID_MESSAGE, s3)
     else do {
       let s4 = s3\<lparr>xTimestampList := (xTimestampList s3)
                    \<lparr>reference64_ts := timestamp (xsntpAsynchEvent s3)\<rparr>\<rparr>;
       let s5 = prv_utility_unregister_event exlibSNTP_SOFTSR_RECV_BIT s4;
       Some (SNTPEX_SUCCESS,
         s5\<lparr>client := (client s5)\<lparr>state := UD_SNTP_CLIENT_STATE_HANDLING_RSP\<rparr>\<rparr>)
     }
   }"

definition sFct_sntp_CloseConnection :: "system \<Rightarrow> (sntp_ud_t \<times> system) option" where
  "sFct_sntp_CloseConnection s =
     (case sock (client s) of
        None \<Rightarrow> Some (SNTPEX_ERR_NULL_PTR, s)
      | Some p_socket \<Rightarrow>
          (let s1 = (if fd p_socket \<noteq> - 1
                     then (SlNetSock_close (fd p_socket) s)
                            \<lparr>client := (client s)\<lparr>sock := Some (p_socket\<lparr>fd := - 1\<rparr>)\<rparr>\<rparr>
                     else s)
           in Some (SNTPEX_SUCCESS,
                s1\<lparr>client := (client s1)\<lparr>state := UD_SNTP_CLIENT_STATE_OPEN\<rparr>\<rparr>)))"

definition sFct_sntp_HandlingResponse :: "system \<Rightarrow> (sntp_ud_t \<times> system) option" where
  "sFct_sntp_HandlingResponse s =
     (let responce = payload (client s) in
      if payloadLen (client s) < sizeof_x_sntp_request
        then Some (SNTPEX_ERR_INVALID_MESSAGE, s)
      else if req_vn responce = 0
        then Some (SNTPEX_ERR_INVALID_MESSAGE, s)
      else if val (req_transmitTimestamp responce) = 0
        then Some (SNTPEX_ERR_INVALID_MESSAGE, s)
      else if req_mode responce \<noteq> specNTP_MODE_SERVER \<and>
              req_mode responce \<noteq> specNTP_MODE_BROADCAST
        then Some (SNTPEX_ERR_INVALID_MESSAGE, s)
      else if seconds (req_originateTimestamp responce) \<noteq> 0 \<or>
              fraction (req_originateTimestamp responce) \<noteq>
                SlNetUtil_ntohl (expected_orig_ts (client s))
        then Some (SNTPEX_ERR_INVALID_MESSAGE, s)
      else
        (let s1 = s\<lparr>client := (client s)\<lparr>kissCode := 0\<rparr>\<rparr> in
         if req_stratum responce = 0
           then Some (SNTPEX_ERR_REQUEST_REJECTED,
                  s1\<lparr>client := (client s1)
                       \<lparr>kissCode := SlNetUtil_ntohl (req_referenceId responce)\<rparr>\<rparr>)
         else Some (SNTPEX_SUCCESS,
                s1\<lparr>xTimestampList := (xTimestampList s1)
                       \<lparr>transmit64_ts :=
                          prv_utility_ntp_to_epoch
                            (SlNetUtil_ntohl (seconds (req_transmitTimestamp responce)))
                            (SlNetUtil_ntohl (fraction (req_transmitTimestamp responce))),
                        receive64_ts :=
                          prv_utility_ntp_to_epoch
                            (SlNetUtil_ntohl (seconds (req_receiveTimestamp responce)))
                            (SlNetUtil_ntohl (fraction (req_receiveTimestamp responce))),
                        referenceTimestamp :=
                          \<lparr>seconds = SlNetUtil_ntohl (seconds (req_referenceTimestamp responce)),
                           fraction = SlNetUtil_ntohl (fraction (req_referenceTimestamp responce))\<rparr>,
                        receiveTimestamp :=
                          \<lparr>seconds = SlNetUtil_ntohl (seconds (req_receiveTimestamp responce)),
                           fraction = SlNetUtil_ntohl (fraction (req_receiveTimestamp responce))\<rparr>,
                        transmitTimestamp :=
                          \<lparr>seconds = SlNetUtil_ntohl (seconds (req_transmitTimestamp responce)),
                           fraction = SlNetUtil_ntohl (fraction (req_transmitTimestamp responce))\<rparr>\<rparr>,
                   client := (client s1)\<lparr>state := UD_SNTP_CLIENT_STATE_COMPLETE\<rparr>\<rparr>)))"

section \<open>Protocol state machine\<close>

text \<open>
  The table \<open>sntp_sapi\<close> has one handler for each state below
  \<open>UD_SNTP_CLIENT_STATE_COMPLETE\<close>; indexing it with \<open>COMPLETE\<close> is out of bounds.
\<close>

fun sntp_sapi :: "udSntpClientState \<Rightarrow> system \<Rightarrow> (sntp_ud_t \<times> system) option" where
  "sntp_sapi UD_SNTP_CLIENT_STATE_OPEN = sFct_sntp_OpenConnection"
| "sntp_sapi UD_SNTP_CLIENT_STATE_SENDING = sFct_sntp_SendRequest"
| "sntp_sapi UD_SNTP_CLIENT_STATE_RECEIVING = sFct_sntp_ReceiveResponse"
| "sntp_sapi UD_SNTP_CLIENT_STATE_HANDLING_RSP = sFct_sntp_HandlingResponse"
| "sntp_sapi UD_SNTP_CLIENT_STATE_CLOSE = sFct_sntp_CloseConnection"
| "sntp_sapi UD_SNTP_CLIENT_STATE_COMPLETE = (\<lambda>s. None)"

text \<open>How many handlers are still ahead of a state on the way to \<open>COMPLETE\<close>.\<close>

fun steps_left :: "udSntpClientState \<Rightarrow> nat" where
  "steps_left UD_SNTP_CLIENT_STATE_CLOSE = 5"
| "steps_left UD_SNTP_CLIENT_STATE_OPEN = 4"
| "steps_left UD_SNTP_CLIENT_STATE_SENDING = 3"
| "steps_left UD_SNTP_CLIENT_STATE_RECEIVING = 2"
| "steps_left UD_SNTP_CLIENT_STATE_HANDLING_RSP = 1"
| "steps_left UD_SNTP_CLIENT_STATE_COMPLETE = 0"

text \<open>
  The driving loop of \<open>sntpex_client_timestamp_get\<close>. The second argument is not in
  the source: it records each handler run, as the pair of the state whose handler ran
  and the code it returned.
\<close>

type_synonym fsm_trace = "(udSntpClientState \<times> sntp_ud_t) list"

function fsm_loop ::
    "sntp_ud_t \<Rightarrow> fsm_trace \<Rightarrow> system \<Rightarrow> (sntp_ud_t \<times> fsm_trace \<times> system) option" where
  "fsm_loop xLibReturnCode trace s =
     (if xLibReturnCode = SNTPEX_SUCCESS \<and>
         state (client s) \<noteq> UD_SNTP_CLIENT_STATE_COMPLETE
      then (case sntp_sapi (state (client s)) s of
              None \<Rightarrow> None
            | Some (rc, s1) \<Rightarrow> fsm_loop rc (trace @ [(state (client s), rc)]) s1)
      else Some (xLibReturnCode, trace, s))"
  by pat_completeness auto
termination
proof (relation "measure (\<lambda>(rc, trace, s).
         if rc = SNTPEX_SUCCESS then Suc (steps_left (state (client s))) else 0)")
  show "wf (measure (\<lambda>(rc, trace, s).
         if rc = SNTPEX_SUCCESS then Suc (steps_left (state (client s))) else 0))"
    by simp
next
  fix xLibReturnCode :: sntp_ud_t and trace :: fsm_trace and s x2 rc s1
  assume a: "xLibReturnCode = SNTPEX_SUCCESS \<and>
      state (client s) \<noteq> UD_SNTP_CLIENT_STATE_COMPLETE"
    and r: "sntp_sapi (state (client s)) s = Some x2" "(rc, s1) = x2"
  have adv: "steps_left (state (client s1)) < steps_left (state (client s))"
    if ok: "rc = SNTPEX_SUCCESS"
  proof (cases "state (client s)")
    case UD_SNTP_CLIENT_STATE_OPEN
    with r ok show ?thesis
      by (auto simp add: sFct_sntp_OpenConnection_def Let_def
          split: option.splits if_splits Option.bind_splits)
  next
    case UD_SNTP_CLIENT_STATE_SENDING
    with r ok show ?thesis
      by (auto simp add: sFct_sntp_SendRequest_def Let_def
          split: option.splits if_splits Option.bind_splits)
  next
    case UD_SNTP_CLIENT_STATE_RECEIVING
    with r ok show ?thesis
      by (auto simp add: sFct_sntp_ReceiveResponse_def Let_def
          split: option.splits if_splits Option.bind_splits)
  next
    case UD_SNTP_CLIENT_STATE_HANDLING_RSP
    with r ok show ?thesis
      by (auto simp add: sFct_sntp_HandlingResponse_def Let_def
          split: option.splits if_splits)
  next
    case UD_SNTP_CLIENT_STATE_CLOSE
    with r ok show ?thesis
      by (auto simp add: sFct_sntp_CloseConnection_def Let_def
          split: option.splits if_splits)
  next
    case UD_SNTP_CLIENT_STATE_COMPLETE
    with a show ?thesis by simp
  qed
  show "((rc, trace @ [(state (client s), rc)], s1), (xLibReturnCode, trace, s))
      \<in> measure (\<lambda>(rc, trace, s).
           if rc = SNTPEX_SUCCESS then Suc (steps_left (state (client s))) else 0)"
    using a adv by auto
qed

declare fsm_loop.simps [simp del]

text \<open>
  \<open>sntpex_client_timestamp_get\<close>. The two pointer arguments say whether the handle
  and the caller's record are NULL; the objects are \<open>client\<close> and \<open>xTimestampList\<close>
  of the system. The result carries the trace of the handlers run, the call to the
  \<open>CLOSE\<close> handler on the error path included.
\<close>

definition sntpex_client_timestamp_get ::
    "pointer \<Rightarrow> pointer \<Rightarrow> system \<Rightarrow> (sntp_ud_t \<times> fsm_trace \<times> system) option" where
  "sntpex_client_timestamp_get p_client xTimestampCtx s =
     (if p_client = NULL \<or> xTimestampCtx = NULL then Some (SNTPEX_ERR_NULL_PTR, [], s)
      else do {
        (tick, s1) \<leftarrow> get_os_tick s;
        let s2 = s1\<lparr>client := (client s1)\<lparr>startTime := tick\<rparr>\<rparr>;
        (xLibReturnCode, trace, s3) \<leftarrow> fsm_loop SNTPEX_SUCCESS [] s2;
        if xLibReturnCode = SNTPEX_SUCCESS
        then Some (xLibReturnCode, trace,
               s3\<lparr>client := (client s3)\<lparr>state := UD_SNTP_CLIENT_STATE_SENDING\<rparr>\<rparr>)
        else do {
          let s4 = prv_utility_unregister_event exlibSNTP_SOFTSR_RECV_BIT s3;
          (rc_close, s5) \<leftarrow> sFct_sntp_CloseConnection s4;
          Some (xLibReturnCode, trace @ [(UD_SNTP_CLIENT_STATE_CLOSE, rc_close)], s5)
        }
      })"

definition sntpex_client_Kiss_code_get :: "pointer \<Rightarrow> system \<Rightarrow> 32 word" where
  "sntpex_client_Kiss_code_get p_client s =
     (if p_client \<noteq> NULL then kissCode (client s) else 0)"

section \<open>Notions used to state the properties\<close>

text \<open>
  The big-endian reading of four bytes, as the wire format of the specification has
  every multi-byte field.
\<close>

definition be_u32 :: "8 word list \<Rightarrow> nat \<Rightarrow> 32 word" where
  "be_u32 bs off =
     push_bit 24 (ucast (bs ! off)) OR push_bit 16 (ucast (bs ! (off + 1))) OR
     push_bit 8 (ucast (bs ! (off + 2))) OR ucast (bs ! (off + 3))"

text \<open>
  The state a handler leaves behind when it succeeds, and the handlers that lie between
  a state and \<open>COMPLETE\<close>, in the order the loop runs them.
\<close>

fun fsm_next :: "udSntpClientState \<Rightarrow> udSntpClientState" where
  "fsm_next UD_SNTP_CLIENT_STATE_CLOSE = UD_SNTP_CLIENT_STATE_OPEN"
| "fsm_next UD_SNTP_CLIENT_STATE_OPEN = UD_SNTP_CLIENT_STATE_SENDING"
| "fsm_next UD_SNTP_CLIENT_STATE_SENDING = UD_SNTP_CLIENT_STATE_RECEIVING"
| "fsm_next UD_SNTP_CLIENT_STATE_RECEIVING = UD_SNTP_CLIENT_STATE_HANDLING_RSP"
| "fsm_next UD_SNTP_CLIENT_STATE_HANDLING_RSP = UD_SNTP_CLIENT_STATE_COMPLETE"
| "fsm_next UD_SNTP_CLIENT_STATE_COMPLETE = UD_SNTP_CLIENT_STATE_COMPLETE"

fun path_from :: "udSntpClientState \<Rightarrow> udSntpClientState list" where
  "path_from UD_SNTP_CLIENT_STATE_CLOSE =
     [UD_SNTP_CLIENT_STATE_CLOSE, UD_SNTP_CLIENT_STATE_OPEN, UD_SNTP_CLIENT_STATE_SENDING,
      UD_SNTP_CLIENT_STATE_RECEIVING, UD_SNTP_CLIENT_STATE_HANDLING_RSP]"
| "path_from UD_SNTP_CLIENT_STATE_OPEN =
     [UD_SNTP_CLIENT_STATE_OPEN, UD_SNTP_CLIENT_STATE_SENDING,
      UD_SNTP_CLIENT_STATE_RECEIVING, UD_SNTP_CLIENT_STATE_HANDLING_RSP]"
| "path_from UD_SNTP_CLIENT_STATE_SENDING =
     [UD_SNTP_CLIENT_STATE_SENDING,
      UD_SNTP_CLIENT_STATE_RECEIVING, UD_SNTP_CLIENT_STATE_HANDLING_RSP]"
| "path_from UD_SNTP_CLIENT_STATE_RECEIVING =
     [UD_SNTP_CLIENT_STATE_RECEIVING, UD_SNTP_CLIENT_STATE_HANDLING_RSP]"
| "path_from UD_SNTP_CLIENT_STATE_HANDLING_RSP = [UD_SNTP_CLIENT_STATE_HANDLING_RSP]"
| "path_from UD_SNTP_CLIENT_STATE_COMPLETE = []"

text \<open>
  The handle has a socket attached, and the transport holds no descriptor open but the
  one stored in it.
\<close>

definition owns_fd :: "system \<Rightarrow> bool" where
  "owns_fd s =
     (case sock (client s) of
        None \<Rightarrow> False
      | Some p_socket \<Rightarrow> list_all (\<lambda>d. d = fd p_socket \<and> 0 \<le> d) (open_fds s))"

text \<open>
  Two records agree on the six fields the decoder of \<open>sFct_sntp_HandlingResponse\<close>
  writes and on \<open>originateTimestamp\<close>, which no handler writes.
\<close>

definition same_decoded :: "xTimestampCtx_t \<Rightarrow> xTimestampCtx_t \<Rightarrow> bool" where
  "same_decoded a b =
     (referenceTimestamp a = referenceTimestamp b \<and>
      originateTimestamp a = originateTimestamp b \<and>
      receiveTimestamp a = receiveTimestamp b \<and>
      transmitTimestamp a = transmitTimestamp b \<and>
      receive64_ts a = receive64_ts b \<and>
      transmit64_ts a = transmit64_ts b)"

section \<open>Scenarios\<close>

text \<open>
  A freshly initialised handle with a zeroed record, and collaborators that answer one
  complete exchange: the socket is created as descriptor 3, the 48 bytes are sent, and
  a well-formed reply of stratum 2 echoing the nonce \<open>0x1234\<close> arrives while the event
  handler runs once.
\<close>

definition demo_ctx :: xTimestampCtx_t where
  "demo_ctx = \<lparr>referenceTimestamp = \<lparr>seconds = 0, fraction = 0\<rparr>,
     originateTimestamp = \<lparr>seconds = 0, fraction = 0\<rparr>,
     receiveTimestamp = \<lparr>seconds = 0, fraction = 0\<rparr>,
     transmitTimestamp = \<lparr>seconds = 0, fraction = 0\<rparr>,
     originate64_ts = 0, reference64_ts = 0, receive64_ts = 0, transmit64_ts = 0\<rparr>"

definition demo_client :: sntpex_client_handle_t where
  "demo_client = \<lparr>sock = Some \<lparr>fd = - 1\<rparr>, timeout = 3000, startTime = 0,
     state = UD_SNTP_CLIENT_STATE_OPEN, payload = replicate 68 0, payloadLen = 0,
     kissCode = 0, expected_orig_ts = 0\<rparr>"

definition demo_reply :: "8 word list" where
  "demo_reply = [0x24, 2, 6, 0xEC] @ replicate 8 0 @ [0x47, 0x50, 0x53, 0]
     @ [0xE0, 0, 0, 1, 0, 0, 0, 0]
     @ [0, 0, 0, 0, 0, 0, 0x12, 0x34]
     @ [0xE0, 0, 0, 2, 0x80, 0, 0, 0]
     @ [0xE0, 0, 0, 3, 0x40, 0, 0, 0]"

definition demo_system :: system where
  "demo_system = \<lparr>client = demo_client, xTimestampList = demo_ctx,
     xsntpAsynchEvent = \<lparr>timestamp = 0, event_cb = None, SR = 0\<rparr>,
     pg_vtable_api = NonNULL,
     os_ticks = [0x1000, 0x1234, 0x1235, 0x1236],
     unix_timestamps = [1700000000000000, 1700000000050000],
     sock_create = [3], sock_setopt = [0], sock_sendto = [48],
     sock_recvfrom = [Recv 48 demo_reply True],
     open_fds = [], cb_calls = []\<rparr>"

text \<open>The same exchange with a transport that fails to send.\<close>

definition send_fails_system :: system where
  "send_fails_system = demo_system\<lparr>sock_sendto := [- 1]\<rparr>"

text \<open>A handle left by a successful call: the socket is open and the state is \<open>SENDING\<close>.\<close>

definition open_socket_system :: system where
  "open_socket_system = demo_system
     \<lparr>client := demo_client\<lparr>sock := Some \<lparr>fd = 3\<rparr>, state := UD_SNTP_CLIENT_STATE_SENDING\<rparr>,
      open_fds := [3]\<rparr>"

text \<open>
  A Kiss-of-Death reply (stratum 0, reference identifier "RATE") in the payload of a
  handle that is about to evaluate it; the same handle expecting another nonce; and a
  handle that still holds the code of an earlier call while the reply has version 0.
\<close>

definition kod_reply :: "8 word list" where
  "kod_reply = [0x24, 0, 6, 0xEC] @ replicate 8 0 @ [0x52, 0x41, 0x54, 0x45]
     @ replicate 8 0
     @ [0, 0, 0, 0, 0, 0, 0x12, 0x34]
     @ replicate 8 0
     @ [0xE0, 0, 0, 3, 0x40, 0, 0, 0]"

definition kod_system :: system where
  "kod_system = demo_system
     \<lparr>client := demo_client
        \<lparr>sock := Some \<lparr>fd = 3\<rparr>, state := UD_SNTP_CLIENT_STATE_HANDLING_RSP,
         payload := kod_reply @ replicate 20 0, payloadLen := 48,
         expected_orig_ts := 0x1234\<rparr>,
      open_fds := [3]\<rparr>"

definition wrong_nonce_system :: system where
  "wrong_nonce_system = kod_system
     \<lparr>client := (client kod_system)\<lparr>expected_orig_ts := 0x1235\<rparr>\<rparr>"

definition stale_kiss_system :: system where
  "stale_kiss_system = kod_system
     \<lparr>client := (client kod_system)
        \<lparr>kissCode := 0x52415445, payload := (payload (client kod_system))[0 := 0x04]\<rparr>\<rparr>"

text \<open>Only the send-pending bit is set in the status register; a callback is registered.\<close>

definition send_pending_system :: system where
  "send_pending_system = demo_system
     \<lparr>xsntpAsynchEvent := \<lparr>timestamp = 0, event_cb = Some 7, SR = 2\<rparr>\<rparr>"

section \<open>Properties of the timestamp converter\<close>

lemma low6_unat: "unat ((w :: 32 word) AND 0x3F) = unat w mod 64"
proof -
  have "(0x3F :: 32 word) = mask 6" by (simp add: mask_eq_exp_minus_1)
  then have "w AND 0x3F = take_bit 6 w" by (simp add: take_bit_eq_mask)
  then have "unat (w AND 0x3F) = take_bit 6 (unat w)"
    by (simp only: unsigned_take_bit_eq)
  then show ?thesis by (simp add: take_bit_eq_mod)
qed

lemma segment_unat: "unat (drop_bit i (F :: 32 word) AND 0x3F) = spec_chunk (unat F) i"
proof -
  have "unat (drop_bit i F AND 0x3F) = drop_bit i (unat F) mod 64"
    by (simp only: low6_unat unat_drop_bit_eq)
  then show ?thesis
    by (simp only: drop_bit_eq_div spec_chunk_def)
qed

lemma spec_chunk_le: "spec_chunk F i \<le> 63"
proof -
  have "spec_chunk F i < 64" unfolding spec_chunk_def by simp
  then show ?thesis by simp
qed

text \<open>The accumulator never exceeds one million, so no 32-bit operation wraps.\<close>

lemma spec_frac_step_le:
  assumes "acc \<le> 1000000" and "chunk \<le> 63"
  shows "spec_frac_step acc chunk \<le> 1000000"
proof -
  have c: "chunk * 15625 \<le> 984375" using assms(2) by simp
  show ?thesis
  proof (cases "32 \<le> acc mod 64")
    case True
    then have "acc \<noteq> 1000000" by auto
    with assms(1) have "acc div 64 \<le> 15624" by simp
    with c True show ?thesis by (simp add: spec_frac_step_def)
  next
    case False
    from assms(1) have "acc div 64 \<le> 15625" by simp
    with c False show ?thesis by (simp add: spec_frac_step_def)
  qed
qed

lemma body_unat:
  fixes v s :: "32 word"
  assumes v: "unat v \<le> 1000000" and s: "unat s \<le> 63"
  shows "unat (if 32 \<le> (v AND 0x3F)
               then drop_bit 6 v + s * 15625 + 1
               else drop_bit 6 v + s * 15625) = spec_frac_step (unat v) (unat s)"
proof -
  have m: "unat (s * 15625) = unat s * 15625"
    using s by (simp add: unat_word_ariths)
  have "unat (drop_bit 6 v) = drop_bit 6 (unat v)"
    by (simp only: unat_drop_bit_eq)
  then have d: "unat (drop_bit 6 v) = unat v div 64"
    by (simp add: drop_bit_eq_div)
  have dl: "unat v div 64 \<le> 15625" using v by simp
  have ml: "unat s * 15625 \<le> 984375" using s by simp
  have a: "unat (drop_bit 6 v + s * 15625) = unat v div 64 + unat s * 15625"
    using dl ml by (simp add: unat_word_ariths m d)
  have a1: "unat (drop_bit 6 v + s * 15625 + 1) = unat v div 64 + unat s * 15625 + 1"
    using dl ml by (simp add: unat_word_ariths m d)
  have c: "(32 \<le> (v AND 0x3F)) = (32 \<le> unat v mod 64)"
    by (simp add: word_le_nat_alt low6_unat)
  show ?thesis
    by (simp only: c a a1 spec_frac_step_def split: if_split) simp
qed

lemma frac_loop_unfold:
  "index < 32 \<Longrightarrow> frac_loop F index v =
     frac_loop F (index + 6)
       (if 32 \<le> (v AND 0x3F)
        then drop_bit 6 v + (drop_bit index F AND 0x3F) * 15625 + 1
        else drop_bit 6 v + (drop_bit index F AND 0x3F) * 15625)"
  by (subst frac_loop.simps) (simp add: Let_def)

lemma frac_loop_step:
  assumes "index < 32" and "unat v \<le> 1000000"
  shows "\<exists>v'. frac_loop F index v = frac_loop F (index + 6) v' \<and>
              unat v' = spec_frac_step (unat v) (spec_chunk (unat F) index) \<and>
              unat v' \<le> 1000000"
proof -
  let ?s = "drop_bit index F AND 0x3F"
  let ?v' = "if 32 \<le> (v AND 0x3F)
        then drop_bit 6 v + ?s * 15625 + 1
        else drop_bit 6 v + ?s * 15625"
  have s: "unat ?s = spec_chunk (unat F) index" by (rule segment_unat)
  then have sl: "unat ?s \<le> 63" using spec_chunk_le by simp
  have u: "unat ?v' = spec_frac_step (unat v) (spec_chunk (unat F) index)"
    using body_unat [OF assms(2) sl] s by simp
  have "unat ?v' \<le> 1000000"
    unfolding u by (rule spec_frac_step_le [OF assms(2) spec_chunk_le])
  with u frac_loop_unfold [OF assms(1), of F v] show ?thesis by blast
qed

lemma frac_loop_five_steps:
  "\<exists>(v1 :: 32 word) (v2 :: 32 word) (v3 :: 32 word) (v4 :: 32 word) (v5 :: 32 word).
     prv_utility_frac_to_usecs F = v5 \<and>
     unat v1 = spec_frac_step 0 (spec_chunk (unat F) 2) \<and>
     unat v2 = spec_frac_step (unat v1) (spec_chunk (unat F) 8) \<and>
     unat v3 = spec_frac_step (unat v2) (spec_chunk (unat F) 14) \<and>
     unat v4 = spec_frac_step (unat v3) (spec_chunk (unat F) 20) \<and>
     unat v5 = spec_frac_step (unat v4) (spec_chunk (unat F) 26) \<and>
     unat v5 \<le> 1000000"
proof -
  obtain v1 where 1: "frac_loop F 2 0 = frac_loop F 8 v1"
      "unat v1 = spec_frac_step 0 (spec_chunk (unat F) 2)" "unat v1 \<le> 1000000"
    using frac_loop_step [of 2 0 F] by auto
  obtain v2 where 2: "frac_loop F 8 v1 = frac_loop F 14 v2"
      "unat v2 = spec_frac_step (unat v1) (spec_chunk (unat F) 8)" "unat v2 \<le> 1000000"
    using frac_loop_step [of 8 v1 F] 1(3) by auto
  obtain v3 where 3: "frac_loop F 14 v2 = frac_loop F 20 v3"
      "unat v3 = spec_frac_step (unat v2) (spec_chunk (unat F) 14)" "unat v3 \<le> 1000000"
    using frac_loop_step [of 14 v2 F] 2(3) by auto
  obtain v4 where 4: "frac_loop F 20 v3 = frac_loop F 26 v4"
      "unat v4 = spec_frac_step (unat v3) (spec_chunk (unat F) 20)" "unat v4 \<le> 1000000"
    using frac_loop_step [of 20 v3 F] 3(3) by auto
  obtain v5 where 5: "frac_loop F 26 v4 = frac_loop F 32 v5"
      "unat v5 = spec_frac_step (unat v4) (spec_chunk (unat F) 26)" "unat v5 \<le> 1000000"
    using frac_loop_step [of 26 v4 F] 4(3) by auto
  have e: "frac_loop F 32 v5 = v5" by (subst frac_loop.simps) simp
  have r: "prv_utility_frac_to_usecs F = v5"
    by (simp only: prv_utility_frac_to_usecs_def 1(1) 2(1) 3(1) 4(1) 5(1) e)
  with 1(2) 2(2) 3(2) 4(2) 5(2) 5(3) show ?thesis by blast
qed

lemma frac_to_usecs_spec: "unat (prv_utility_frac_to_usecs F) = spec_frac_to_usecs (unat F)"
proof -
  obtain v1 v2 v3 v4 v5 :: "32 word" where
    "prv_utility_frac_to_usecs F = v5"
    "unat v1 = spec_frac_step 0 (spec_chunk (unat F) 2)"
    "unat v2 = spec_frac_step (unat v1) (spec_chunk (unat F) 8)"
    "unat v3 = spec_frac_step (unat v2) (spec_chunk (unat F) 14)"
    "unat v4 = spec_frac_step (unat v3) (spec_chunk (unat F) 20)"
    "unat v5 = spec_frac_step (unat v4) (spec_chunk (unat F) 26)"
    using frac_loop_five_steps [of F] by blast
  then show ?thesis by (simp add: spec_frac_to_usecs_def)
qed

lemma frac_to_usecs_le: "unat (prv_utility_frac_to_usecs F) \<le> 1000000"
  using frac_loop_five_steps [of F] by blast

text \<open>
  C10: for every 32-bit fraction the conversion computed by the code is the iterative
  approximation of the specification (five six-bit chunks at offsets 2, 8, 14, 20, 26,
  accumulator shifted right by 6 plus chunk times 15625, plus 1 when the low six bits of
  the accumulator before the shift are at least 32); a fraction of 0 gives 0
  microseconds and a fraction of \<open>2^31\<close> gives 500000 microseconds.
\<close>

theorem frac_to_usecs_refines_spec:
  "unat (prv_utility_frac_to_usecs F) = spec_frac_to_usecs (unat F) \<and>
   prv_utility_frac_to_usecs 0 = 0 \<and>
   prv_utility_frac_to_usecs (2 ^ 31) = 500000"
proof (intro conjI)
  show "unat (prv_utility_frac_to_usecs F) = spec_frac_to_usecs (unat F)"
    by (rule frac_to_usecs_spec)
  show "prv_utility_frac_to_usecs 0 = 0"
    by (simp add: prv_utility_frac_to_usecs_def)
  show "prv_utility_frac_to_usecs (2 ^ 31) = 500000"
    by (simp add: prv_utility_frac_to_usecs_def)
qed

theorem frac_to_usecs_refines_spec_witness:
  "unat (prv_utility_frac_to_usecs 0xC0000000) = spec_frac_to_usecs 3221225472 \<and>
   spec_frac_to_usecs 3221225472 = 750000"
proof -
  have "unat (0xC0000000 :: 32 word) = 3221225472" by simp
  with frac_to_usecs_refines_spec [of "0xC0000000"]
  have "unat (prv_utility_frac_to_usecs 0xC0000000) = spec_frac_to_usecs 3221225472"
    by simp
  moreover have "spec_frac_to_usecs 3221225472 = 750000"
    by (simp add: spec_frac_to_usecs_def spec_frac_step_def spec_chunk_def)
  ultimately show ?thesis by simp
qed

lemma sint64_of_int:
  assumes "- (2 ^ 63) \<le> k" and "k < 2 ^ 63"
  shows "sint (word_of_int k :: 64 word) = k"
proof -
  have e: "signed_take_bit 63 k = k"
    by (rule signed_take_bit_int_eq_self [OF assms])
  have "sint (word_of_int k :: 64 word) = signed_take_bit (LENGTH(64) - 1) k"
    by (rule sint_sbintrunc')
  also have "\<dots> = signed_take_bit 63 k" by simp
  also have "\<dots> = k" by (rule e)
  finally show ?thesis .
qed

lemma ntp_to_epoch_of_int:
  "prv_utility_ntp_to_epoch S F =
     word_of_int ((uint S - 2208988800) * 1000000 + uint (prv_utility_frac_to_usecs F))"
  by (simp add: prv_utility_ntp_to_epoch_def exlibDIFF_SEC_1900_1970_def)

text \<open>
  C2: for every 32-bit NTP seconds value S and fraction F the conversion returns the
  64-bit value (S - 2208988800) * 1000000 plus the microseconds of F. Read as a signed
  64-bit number the result is exactly that integer, so an input before 1970
  (S < 2208988800) gives the negative number in two's complement; the microsecond
  part is at most 1000000.
\<close>

theorem ntp_to_epoch_value:
  "prv_utility_ntp_to_epoch S F =
     word_of_int ((uint S - 2208988800) * 1000000 + uint (prv_utility_frac_to_usecs F)) \<and>
   sint (prv_utility_ntp_to_epoch S F) =
     (uint S - 2208988800) * 1000000 + uint (prv_utility_frac_to_usecs F) \<and>
   sint (prv_utility_ntp_to_epoch S 0) = (uint S - 2208988800) * 1000000 \<and>
   uint (prv_utility_frac_to_usecs F) \<le> 1000000"
proof -
  have u: "uint (prv_utility_frac_to_usecs G) \<le> 1000000" for G
  proof -
    have "int (unat (prv_utility_frac_to_usecs G)) \<le> int 1000000"
      using frac_to_usecs_le [of G] by (simp only: of_nat_le_iff)
    then show ?thesis by simp
  qed
  have s0: "0 \<le> uint S" by simp
  have s1: "uint S < 4294967296" using uint_lt2p [of S] by simp
  have sg: "sint (prv_utility_ntp_to_epoch S G) =
      (uint S - 2208988800) * 1000000 + uint (prv_utility_frac_to_usecs G)" for G
  proof -
    have u0: "0 \<le> uint (prv_utility_frac_to_usecs G)" by simp
    let ?k = "(uint S - 2208988800) * 1000000 + uint (prv_utility_frac_to_usecs G)"
    have lo: "- (2 ^ 63) \<le> ?k" using s0 u0 by simp
    have hi: "?k < 2 ^ 63" using s1 u [of G] by simp
    show ?thesis
      by (simp only: ntp_to_epoch_of_int sint64_of_int [OF lo hi])
  qed
  have z: "prv_utility_frac_to_usecs 0 = 0"
    by (simp add: prv_utility_frac_to_usecs_def)
  have "sint (prv_utility_ntp_to_epoch S 0) = (uint S - 2208988800) * 1000000"
    using sg [of 0] by (simp add: z)
  with sg [of F] u [of F] ntp_to_epoch_of_int [of S F] show ?thesis by blast
qed

theorem ntp_to_epoch_value_witness:
  "sint (prv_utility_ntp_to_epoch 0 (2 ^ 31)) = - 2208988799500000 \<and>
   sint (prv_utility_ntp_to_epoch 0xE0000002 (2 ^ 31)) = 1549107586500000"
proof -
  have f: "prv_utility_frac_to_usecs 2147483648 = 500000"
    by (simp add: prv_utility_frac_to_usecs_def)
  have "sint (prv_utility_ntp_to_epoch 0 (2 ^ 31)) =
      (uint (0 :: 32 word) - 2208988800) * 1000000 + uint (prv_utility_frac_to_usecs (2 ^ 31))"
    using ntp_to_epoch_value [of 0 "2 ^ 31"] by (rule conjunct1 [OF conjunct2])
  also have "\<dots> = - 2208988799500000" by (simp add: f)
  finally have a: "sint (prv_utility_ntp_to_epoch 0 (2 ^ 31)) = - 2208988799500000" .
  have "sint (prv_utility_ntp_to_epoch 0xE0000002 (2 ^ 31)) =
      (uint (0xE0000002 :: 32 word) - 2208988800) * 1000000 +
      uint (prv_utility_frac_to_usecs (2 ^ 31))"
    using ntp_to_epoch_value [of "0xE0000002" "2 ^ 31"] by (rule conjunct1 [OF conjunct2])
  also have "\<dots> = 1549107586500000" by (simp add: f)
  finally have b: "sint (prv_utility_ntp_to_epoch 0xE0000002 (2 ^ 31)) = 1549107586500000" .
  from a b show ?thesis by (rule conjI)
qed

section \<open>Byte order\<close>

lemma mFF: "(0xFF :: 32 word) = mask 8" by (simp add: mask_eq_exp_minus_1)

lemma mFF00: "(0xFF00 :: 32 word) = push_bit 8 (mask 8)" by (simp add: mask_eq_exp_minus_1)

lemma htonl_involution: "SlNetUtil_htonl (SlNetUtil_htonl v) = v"
proof (rule bit_word_eqI)
  fix n :: nat
  assume "n < LENGTH(32)"
  then have n: "n < 32" by simp
  consider "n < 8" | "8 \<le> n" "n < 16" | "16 \<le> n" "n < 24" | "24 \<le> n" "n < 32"
    using n by linarith
  then show "bit (SlNetUtil_htonl (SlNetUtil_htonl v)) n = bit v n"
    unfolding SlNetUtil_htonl_def mFF mFF00
    by cases (auto simp add: bit_simps)
qed

lemma ntohl_involution: "SlNetUtil_ntohl (SlNetUtil_ntohl v) = v"
  by (simp add: SlNetUtil_ntohl_def htonl_involution)

lemma ntohl_eq_iff: "(x = SlNetUtil_ntohl y) = (SlNetUtil_ntohl x = y)"
  using ntohl_involution by metis

lemma ntohl_host_u32: "SlNetUtil_ntohl (host_u32 bs off) = be_u32 bs off"
proof (rule bit_word_eqI)
  fix n :: nat
  assume "n < LENGTH(32)"
  then have n: "n < 32" by simp
  consider "n < 8" | "8 \<le> n" "n < 16" | "16 \<le> n" "n < 24" | "24 \<le> n" "n < 32"
    using n by linarith
  then show "bit (SlNetUtil_ntohl (host_u32 bs off)) n = bit (be_u32 bs off) n"
    unfolding SlNetUtil_ntohl_def SlNetUtil_htonl_def mFF mFF00 host_u32_def be_u32_def
    by cases (auto simp add: bit_simps dest: bit_imp_le_length)
qed

lemma host_u32_store_u32:
  assumes "off + 3 < length bs"
  shows "host_u32 (store_u32 bs off w) off = w"
proof (rule bit_word_eqI)
  fix n :: nat
  assume "n < LENGTH(32)"
  then have n: "n < 32" by simp
  consider "n < 8" | "8 \<le> n" "n < 16" | "16 \<le> n" "n < 24" | "24 \<le> n" "n < 32"
    using n by linarith
  then show "bit (host_u32 (store_u32 bs off w) off) n = bit w n"
    unfolding host_u32_def store_u32_def using assms
    by cases (auto simp add: bit_simps)
qed

section \<open>What the collaborators and the polling loops leave unchanged\<close>

lemma get_os_tick_frame:
  assumes "get_os_tick s = Some (t, s')"
  shows "s' = s\<lparr>os_ticks := tl (os_ticks s)\<rparr>"
  using assms by (auto simp add: get_os_tick_def split: list.splits)

lemma get_unix_timestamp_frame:
  assumes "get_unix_timestamp s = Some (t, s')"
  shows "s' = s\<lparr>unix_timestamps := tl (unix_timestamps s)\<rparr>"
  using assms by (auto simp add: get_unix_timestamp_def split: list.splits)

lemma SlNetSock_sendTo_frame:
  assumes "SlNetSock_sendTo s = Some (r, s')"
  shows "s' = s\<lparr>sock_sendto := tl (sock_sendto s)\<rparr>"
  using assms by (auto simp add: SlNetSock_sendTo_def split: list.splits)

lemma isr_frame:
  assumes "sntpex_eventTriggingFromISR s = Some (r, s')"
  shows "client s' = client s \<and> xTimestampList s' = xTimestampList s \<and>
         open_fds s' = open_fds s \<and> sock_recvfrom s' = sock_recvfrom s"
  using assms
  by (auto simp add: sntpex_eventTriggingFromISR_def isr_drain_def Let_def
        dest!: get_unix_timestamp_frame
        split: if_splits option.splits Option.bind_splits)

lemma SlNetSock_recvFrom_frame:
  assumes "SlNetSock_recvFrom s = Some (r, s')"
  shows "client s' = (client s)\<lparr>payload := payload (client s')\<rparr> \<and>
         xTimestampList s' = xTimestampList s \<and> open_fds s' = open_fds s"
  using assms
  by (auto simp add: SlNetSock_recvFrom_def Let_def
        dest!: isr_frame
        split: list.splits if_splits Option.bind_splits)

lemma send_loop_frame:
  "send_loop t s = Some (r, s') \<Longrightarrow>
     client s' = client s \<and> xTimestampList s' = xTimestampList s \<and>
     xsntpAsynchEvent s' = xsntpAsynchEvent s \<and> open_fds s' = open_fds s"
proof (induction t s rule: send_loop.induct)
  case (1 t s)
  from "1.prems" obtain r1 s1 where a: "SlNetSock_sendTo s = Some (r1, s1)"
    by (subst (asm) send_loop.simps) (auto split: option.splits)
  have f1: "s1 = s\<lparr>sock_sendto := tl (sock_sendto s)\<rparr>"
    by (rule SlNetSock_sendTo_frame [OF a])
  show ?case
  proof (cases "r1 = SLNETERR_BSD_EAGAIN")
    case False
    with "1.prems" a have "s' = s1" by (subst (asm) send_loop.simps) simp
    with f1 show ?thesis by simp
  next
    case True
    with "1.prems" a obtain now s2 where b: "get_os_tick s1 = Some (now, s2)"
      by (subst (asm) send_loop.simps) (auto split: option.splits)
    have f2: "s2 = s1\<lparr>os_ticks := tl (os_ticks s1)\<rparr>"
      by (rule get_os_tick_frame [OF b])
    show ?thesis
    proof (cases "now - t < timeout (client s2)")
      case False
      with "1.prems" a b True have "s' = s2" by (subst (asm) send_loop.simps) simp
      with f1 f2 show ?thesis by simp
    next
      case c: True
      with "1.prems" a b True have "send_loop t s2 = Some (r, s')"
        by (subst (asm) send_loop.simps) simp
      from "1.IH" [OF a refl True b refl c this] f1 f2 show ?thesis by simp
    qed
  qed
qed

lemma recv_loop_frame:
  "recv_loop t s = Some (r, s') \<Longrightarrow>
     client s' = (client s)\<lparr>payload := payload (client s')\<rparr> \<and>
     xTimestampList s' = xTimestampList s \<and> open_fds s' = open_fds s"
proof (induction t s rule: recv_loop.induct)
  case (1 t s)
  from "1.prems" obtain r1 s1 where a: "SlNetSock_recvFrom s = Some (r1, s1)"
    by (subst (asm) recv_loop.simps) (auto split: option.splits)
  note f1 = SlNetSock_recvFrom_frame [OF a]
  show ?case
  proof (cases "r1 = SLNETERR_BSD_EAGAIN")
    case False
    with "1.prems" a have "s' = s1" by (subst (asm) recv_loop.simps) simp
    with f1 show ?thesis by simp
  next
    case True
    with "1.prems" a obtain now s2 where b: "get_os_tick s1 = Some (now, s2)"
      by (subst (asm) recv_loop.simps) (auto split: option.splits)
    have f2: "s2 = s1\<lparr>os_ticks := tl (os_ticks s1)\<rparr>"
      by (rule get_os_tick_frame [OF b])
    show ?thesis
    proof (cases "now - t < timeout (client s2)")
      case False
      with "1.prems" a b True have "s' = s2" by (subst (asm) recv_loop.simps) simp
      with f1 f2 show ?thesis by simp
    next
      case c: True
      with "1.prems" a b True have "recv_loop t s2 = Some (r, s')"
        by (subst (asm) recv_loop.simps) simp
      from "1.IH" [OF a refl True b refl c this] have
        g: "client s' = (client s2)\<lparr>payload := payload (client s')\<rparr>"
           "xTimestampList s' = xTimestampList s2" "open_fds s' = open_fds s2"
        by simp_all
      have "client s2 = client s1" using f2 by simp
      with f1 have "client s2 = (client s)\<lparr>payload := payload (client s2)\<rparr>" by simp
      then have "(client s2)\<lparr>payload := payload (client s')\<rparr> =
          (client s)\<lparr>payload := payload (client s')\<rparr>"
        by (metis sntpex_client_handle_t.update_convs(5) sntpex_client_handle_t.surjective)
      with g f1 f2 show ?thesis by simp
    qed
  qed
qed

section \<open>What each handler changes\<close>

lemma build_request_frame:
  assumes "prv_utility_build_request s = Some (rc, s')"
  shows "sock (client s') = sock (client s) \<and> kissCode (client s') = kissCode (client s) \<and>
         state (client s') = state (client s) \<and>
         payloadLen (client s') = sizeof_x_sntp_request \<and>
         xTimestampList s' = xTimestampList s \<and> open_fds s' = open_fds s \<and>
         xsntpAsynchEvent s' = xsntpAsynchEvent s"
  using assms
  by (auto simp add: prv_utility_build_request_def Let_def
        dest!: get_os_tick_frame split: Option.bind_splits)

lemma no_fd_at_sentinel:
  assumes "list_all (\<lambda>d. d = (- 1 :: int) \<and> 0 \<le> d) ds"
  shows "ds = []"
  using assms by (cases ds) auto

lemma removeAll_owned:
  assumes "list_all (\<lambda>d. d = (x :: int) \<and> 0 \<le> d) ds"
  shows "removeAll x ds = []"
  using assms by (induction ds) auto

lemma Open_frame:
  assumes "sFct_sntp_OpenConnection s = Some (rc, s')"
  shows "(sock (client s') = None) = (sock (client s) = None) \<and>
         kissCode (client s') = kissCode (client s) \<and>
         payloadLen (client s') = payloadLen (client s) \<and>
         xTimestampList s' = xTimestampList s \<and>
         (rc = SNTPEX_SUCCESS \<longrightarrow> state (client s') = UD_SNTP_CLIENT_STATE_SENDING)"
  using assms
  by (auto simp add: sFct_sntp_OpenConnection_def Let_def
        SlNetSock_create_def SlNetSock_setOpt_def SlNetSock_close_def
        split: option.splits if_splits Option.bind_splits list.splits)

lemma Open_owns_fd:
  assumes r: "sFct_sntp_OpenConnection s = Some (rc, s')" and o: "owns_fd s"
  shows "owns_fd s'"
proof -
  from o obtain p where p: "sock (client s) = Some p"
      and l: "list_all (\<lambda>d. d = fd p \<and> 0 \<le> d) (open_fds s)"
    by (auto simp add: owns_fd_def split: option.splits)
  define s1 where "s1 = (if fd p \<noteq> - 1
      then (SlNetSock_close (fd p) s)\<lparr>client := (client s)\<lparr>sock := Some (p\<lparr>fd := - 1\<rparr>)\<rparr>\<rparr>
      else s)"
  have e: "open_fds s1 = []"
  proof (cases "fd p = - 1")
    case True
    with l have "open_fds s = []" by (simp add: no_fd_at_sentinel)
    with True show ?thesis by (simp add: s1_def)
  next
    case False
    then show ?thesis
      by (simp add: s1_def SlNetSock_close_def removeAll_owned [OF l])
  qed
  from r p obtain d s2 where c: "SlNetSock_create s1 = Some (d, s2)"
    by (auto simp add: sFct_sntp_OpenConnection_def Let_def s1_def
          split: Option.bind_splits)
  from c e have o2: "open_fds s2 = (if 0 \<le> d then [d] else [])"
    by (auto simp add: SlNetSock_create_def split: list.splits)
  define s3 where "s3 = s2\<lparr>client := (client s2)\<lparr>sock := Some (p\<lparr>fd := d\<rparr>)\<rparr>\<rparr>"
  have o3: "owns_fd s3" using o2 by (simp add: owns_fd_def s3_def)
  from r p c have "s' = s3 \<or>
      (\<exists>x s4. SlNetSock_setOpt s3 = Some (x, s4) \<and>
         (s' = s4 \<or> s' = s4\<lparr>client := (client s4)\<lparr>state := UD_SNTP_CLIENT_STATE_SENDING\<rparr>\<rparr>))"
    by (auto simp add: sFct_sntp_OpenConnection_def Let_def s1_def s3_def
          split: Option.bind_splits if_splits)
  with o3 show ?thesis
    by (auto simp add: owns_fd_def SlNetSock_setOpt_def split: list.splits option.splits)
qed

lemma Close_frame:
  assumes "sFct_sntp_CloseConnection s = Some (rc, s')"
  shows "(sock (client s') = None) = (sock (client s) = None) \<and>
         kissCode (client s') = kissCode (client s) \<and>
         payloadLen (client s') = payloadLen (client s) \<and>
         xTimestampList s' = xTimestampList s \<and>
         xsntpAsynchEvent s' = xsntpAsynchEvent s \<and>
         (rc = SNTPEX_SUCCESS \<longrightarrow> state (client s') = UD_SNTP_CLIENT_STATE_OPEN)"
  using assms
  by (auto simp add: sFct_sntp_CloseConnection_def Let_def SlNetSock_close_def
        split: option.splits if_splits)

lemma Close_closes:
  assumes r: "sFct_sntp_CloseConnection s = Some (rc, s')" and o: "owns_fd s"
  shows "rc = SNTPEX_SUCCESS \<and> sock (client s') = Some \<lparr>fd = - 1\<rparr> \<and> open_fds s' = [] \<and>
         state (client s') = UD_SNTP_CLIENT_STATE_OPEN"
proof -
  from o obtain p where p: "sock (client s) = Some p"
      and l: "list_all (\<lambda>d. d = fd p \<and> 0 \<le> d) (open_fds s)"
    by (auto simp add: owns_fd_def split: option.splits)
  show ?thesis
  proof (cases "fd p = - 1")
    case True
    with l have "open_fds s = []" by (simp add: no_fd_at_sentinel)
    moreover from True have "p = \<lparr>fd = - 1\<rparr>" by (cases p) simp
    ultimately show ?thesis using r p True
      by (auto simp add: sFct_sntp_CloseConnection_def Let_def)
  next
    case False
    with r p show ?thesis
      by (auto simp add: sFct_sntp_CloseConnection_def Let_def SlNetSock_close_def
            removeAll_owned [OF l])
  qed
qed

lemma Close_owns_fd:
  assumes "sFct_sntp_CloseConnection s = Some (rc, s')" and "owns_fd s"
  shows "owns_fd s'"
  using Close_closes [OF assms] by (simp add: owns_fd_def)

lemma owns_fd_cong:
  assumes "sock (client s') = sock (client s)" and "open_fds s' = open_fds s"
  shows "owns_fd s' = owns_fd s"
  by (cases "sock (client s)") (simp_all add: owns_fd_def assms)

lemma Send_elim:
  assumes "sFct_sntp_SendRequest s = Some (rc, s')"
  obtains rb s1 t1 s2 t s4 r s5 where
    "prv_utility_build_request s = Some (rb, s1)"
    "get_unix_timestamp s1 = Some (t1, s2)"
    "get_os_tick (s2\<lparr>xTimestampList := (xTimestampList s2)\<lparr>originate64_ts := t1\<rparr>\<rparr>) = Some (t, s4)"
    "send_loop t s4 = Some (r, s5)"
    "(rc, s') = (if SLNETERR_BSD_EAGAIN = r then (SNTPEX_ERR_TIMEOUT, s5)
     else if sint r < 0 \<or> r \<noteq> payloadLen (client s5)
       then (SNTPEX_ERR_TX, s5)
     else (SNTPEX_SUCCESS,
            s5\<lparr>client := (client s5)
                 \<lparr>payload := memset0 (payload (client s5)) (unat (payloadLen (client s5))),
                  state := UD_SNTP_CLIENT_STATE_RECEIVING\<rparr>\<rparr>))"
proof -
  note A = assms [unfolded sFct_sntp_SendRequest_def]
  obtain rb s1 where b: "prv_utility_build_request s = Some (rb, s1)"
    using A by (cases "prv_utility_build_request s") auto
  note A1 = A [unfolded b, simplified]
  obtain t1 s2 where u: "get_unix_timestamp s1 = Some (t1, s2)"
    using A1 by (cases "get_unix_timestamp s1") auto
  note A2 = A1 [unfolded u, simplified]
  let ?s3 = "s2\<lparr>xTimestampList := (xTimestampList s2)\<lparr>originate64_ts := t1\<rparr>\<rparr>"
  obtain t s4 where k: "get_os_tick ?s3 = Some (t, s4)"
    using A2 by (cases "get_os_tick ?s3") (auto simp add: Let_def)
  note A3 = A2 [unfolded Let_def k, simplified]
  obtain p where p: "sock (client s4) = Some p"
    using A3 by (cases "sock (client s4)") auto
  note A4 = A3 [unfolded p, simplified]
  obtain r s5 where l: "send_loop t s4 = Some (r, s5)"
    using A4 by (cases "send_loop t s4") auto
  note A5 = A4 [unfolded l, simplified]
  have "(rc, s') = (if SLNETERR_BSD_EAGAIN = r then (SNTPEX_ERR_TIMEOUT, s5)
     else if sint r < 0 \<or> r \<noteq> payloadLen (client s5)
       then (SNTPEX_ERR_TX, s5)
     else (SNTPEX_SUCCESS,
            s5\<lparr>client := (client s5)
                 \<lparr>payload := memset0 (payload (client s5)) (unat (payloadLen (client s5))),
                  state := UD_SNTP_CLIENT_STATE_RECEIVING\<rparr>\<rparr>))"
    using A5 by (auto split: if_splits)
  with b u k l that show thesis by blast
qed

lemma Send_frame:
  assumes "sFct_sntp_SendRequest s = Some (rc, s')"
  shows "sock (client s') = sock (client s) \<and>
         kissCode (client s') = kissCode (client s) \<and>
         payloadLen (client s') = sizeof_x_sntp_request \<and>
         xTimestampList s' = (xTimestampList s)\<lparr>originate64_ts := originate64_ts (xTimestampList s')\<rparr> \<and>
         open_fds s' = open_fds s \<and>
         (rc = SNTPEX_SUCCESS \<longrightarrow> state (client s') = UD_SNTP_CLIENT_STATE_RECEIVING)"
proof -
  from assms obtain rb s1 t1 s2 t s4 r s5 where
    b: "prv_utility_build_request s = Some (rb, s1)" and
    u: "get_unix_timestamp s1 = Some (t1, s2)" and
    k: "get_os_tick (s2\<lparr>xTimestampList := (xTimestampList s2)\<lparr>originate64_ts := t1\<rparr>\<rparr>) = Some (t, s4)" and
    l: "send_loop t s4 = Some (r, s5)" and
    e: "(rc, s') = (if SLNETERR_BSD_EAGAIN = r then (SNTPEX_ERR_TIMEOUT, s5)
     else if sint r < 0 \<or> r \<noteq> payloadLen (client s5)
       then (SNTPEX_ERR_TX, s5)
     else (SNTPEX_SUCCESS,
            s5\<lparr>client := (client s5)
                 \<lparr>payload := memset0 (payload (client s5)) (unat (payloadLen (client s5))),
                  state := UD_SNTP_CLIENT_STATE_RECEIVING\<rparr>\<rparr>))"
    by (rule Send_elim)
  note fb = build_request_frame [OF b]
  note fu = get_unix_timestamp_frame [OF u]
  note fk = get_os_tick_frame [OF k]
  note fl = send_loop_frame [OF l]
  have c5: "client s5 = client s1" using fl fk fu by simp
  have x5: "xTimestampList s5 = (xTimestampList s)\<lparr>originate64_ts := t1\<rparr>"
    using fl fk fu fb by simp
  have o5: "open_fds s5 = open_fds s" using fl fk fu fb by simp
  from e c5 x5 o5 fb show ?thesis by (auto split: if_splits)
qed

lemma Receive_elim:
  assumes "sFct_sntp_ReceiveResponse s = Some (rc, s')"
  obtains t s2 r s3 where
    "get_os_tick (prv_utility_register_event exlibSNTP_SOFTSR_RECV_BIT None s) = Some (t, s2)"
    "recv_loop t s2 = Some (r, s3)"
    "(rc, s') =
      (if SLNETERR_BSD_EAGAIN = r then (SNTPEX_ERR_TIMEOUT, s3)
       else if sint r < 0 then (SNTPEX_ERR_RX, s3)
       else if r \<noteq> payloadLen (client s3) then (SNTPEX_ERR_INVALID_MESSAGE, s3)
       else if timestamp (xsntpAsynchEvent s3) = 0 then (SNTPEX_ERR_INVALID_MESSAGE, s3)
       else (SNTPEX_SUCCESS,
         (prv_utility_unregister_event exlibSNTP_SOFTSR_RECV_BIT
            (s3\<lparr>xTimestampList := (xTimestampList s3)
                    \<lparr>reference64_ts := timestamp (xsntpAsynchEvent s3)\<rparr>\<rparr>))
         \<lparr>client := (client s3)\<lparr>state := UD_SNTP_CLIENT_STATE_HANDLING_RSP\<rparr>\<rparr>))"
proof -
  note A = assms [unfolded sFct_sntp_ReceiveResponse_def Let_def]
  let ?s1 = "prv_utility_register_event exlibSNTP_SOFTSR_RECV_BIT None s"
  obtain t s2 where k: "get_os_tick ?s1 = Some (t, s2)"
    using A by (cases "get_os_tick ?s1") auto
  note A1 = A [unfolded k, simplified]
  obtain p where p: "sock (client s2) = Some p"
    using A1 by (cases "sock (client s2)") auto
  note A2 = A1 [unfolded p, simplified]
  obtain r s3 where l: "recv_loop t s2 = Some (r, s3)"
    using A2 by (cases "recv_loop t s2") auto
  note A3 = A2 [unfolded l, simplified]
  have "(rc, s') =
      (if SLNETERR_BSD_EAGAIN = r then (SNTPEX_ERR_TIMEOUT, s3)
       else if sint r < 0 then (SNTPEX_ERR_RX, s3)
       else if r \<noteq> payloadLen (client s3) then (SNTPEX_ERR_INVALID_MESSAGE, s3)
       else if timestamp (xsntpAsynchEvent s3) = 0 then (SNTPEX_ERR_INVALID_MESSAGE, s3)
       else (SNTPEX_SUCCESS,
         (prv_utility_unregister_event exlibSNTP_SOFTSR_RECV_BIT
            (s3\<lparr>xTimestampList := (xTimestampList s3)
                    \<lparr>reference64_ts := timestamp (xsntpAsynchEvent s3)\<rparr>\<rparr>))
         \<lparr>client := (client s3)\<lparr>state := UD_SNTP_CLIENT_STATE_HANDLING_RSP\<rparr>\<rparr>))"
    using A3 by (auto simp add: prv_utility_unregister_event_def split: if_splits)
  with k l that show thesis by blast
qed

lemma Receive_frame:
  assumes "sFct_sntp_ReceiveResponse s = Some (rc, s')"
  shows "sock (client s') = sock (client s) \<and>
         kissCode (client s') = kissCode (client s) \<and>
         payloadLen (client s') = payloadLen (client s) \<and>
         expected_orig_ts (client s') = expected_orig_ts (client s) \<and>
         xTimestampList s' = (xTimestampList s)\<lparr>reference64_ts := reference64_ts (xTimestampList s')\<rparr> \<and>
         open_fds s' = open_fds s \<and>
         (rc = SNTPEX_SUCCESS \<longrightarrow> state (client s') = UD_SNTP_CLIENT_STATE_HANDLING_RSP)"
proof -
  let ?s1 = "prv_utility_register_event exlibSNTP_SOFTSR_RECV_BIT None s"
  from assms obtain t s2 r s3 where
    k: "get_os_tick ?s1 = Some (t, s2)" and
    l: "recv_loop t s2 = Some (r, s3)" and
    e: "(rc, s') =
      (if SLNETERR_BSD_EAGAIN = r then (SNTPEX_ERR_TIMEOUT, s3)
       else if sint r < 0 then (SNTPEX_ERR_RX, s3)
       else if r \<noteq> payloadLen (client s3) then (SNTPEX_ERR_INVALID_MESSAGE, s3)
       else if timestamp (xsntpAsynchEvent s3) = 0 then (SNTPEX_ERR_INVALID_MESSAGE, s3)
       else (SNTPEX_SUCCESS,
         (prv_utility_unregister_event exlibSNTP_SOFTSR_RECV_BIT
            (s3\<lparr>xTimestampList := (xTimestampList s3)
                    \<lparr>reference64_ts := timestamp (xsntpAsynchEvent s3)\<rparr>\<rparr>))
         \<lparr>client := (client s3)\<lparr>state := UD_SNTP_CLIENT_STATE_HANDLING_RSP\<rparr>\<rparr>))"
    by (rule Receive_elim)
  note fk = get_os_tick_frame [OF k]
  note fl = recv_loop_frame [OF l]
  have c2: "client s2 = client s" "xTimestampList s2 = xTimestampList s"
      "open_fds s2 = open_fds s"
    using fk by (simp_all add: prv_utility_register_event_def)
  have c3: "client s3 = (client s)\<lparr>payload := payload (client s3)\<rparr>"
    using fl c2 by simp
  have f3: "sock (client s3) = sock (client s)" "kissCode (client s3) = kissCode (client s)"
      "payloadLen (client s3) = payloadLen (client s)"
      "expected_orig_ts (client s3) = expected_orig_ts (client s)"
    by (subst c3, simp)+
  have x3: "xTimestampList s3 = xTimestampList s" "open_fds s3 = open_fds s"
    using fl c2 by simp_all
  from e f3 x3 show ?thesis
    by (auto simp add: prv_utility_unregister_event_def split: if_splits)
qed

lemma Handling_frame:
  assumes "sFct_sntp_HandlingResponse s = Some (rc, s')"
  shows "sock (client s') = sock (client s) \<and>
         payloadLen (client s') = payloadLen (client s) \<and>
         open_fds s' = open_fds s \<and>
         (rc = SNTPEX_SUCCESS \<longrightarrow> state (client s') = UD_SNTP_CLIENT_STATE_COMPLETE) \<and>
         (rc \<noteq> SNTPEX_SUCCESS \<longrightarrow> xTimestampList s' = xTimestampList s)"
  using assms
  by (auto simp add: sFct_sntp_HandlingResponse_def Let_def split: if_splits)

section \<open>The driving loop\<close>

lemma path_from_next:
  "st \<noteq> UD_SNTP_CLIENT_STATE_COMPLETE \<Longrightarrow> path_from st = st # path_from (fsm_next st)"
  by (cases st) simp_all

lemma sapi_next:
  assumes "sntp_sapi (state (client s)) s = Some (SNTPEX_SUCCESS, s')"
  shows "state (client s') = fsm_next (state (client s))"
proof (cases "state (client s)")
  case UD_SNTP_CLIENT_STATE_OPEN
  with assms Open_frame [of s SNTPEX_SUCCESS s'] show ?thesis by simp
next
  case UD_SNTP_CLIENT_STATE_SENDING
  with assms Send_frame [of s SNTPEX_SUCCESS s'] show ?thesis by simp
next
  case UD_SNTP_CLIENT_STATE_RECEIVING
  with assms Receive_frame [of s SNTPEX_SUCCESS s'] show ?thesis by simp
next
  case UD_SNTP_CLIENT_STATE_HANDLING_RSP
  with assms Handling_frame [of s SNTPEX_SUCCESS s'] show ?thesis by simp
next
  case UD_SNTP_CLIENT_STATE_CLOSE
  with assms Close_frame [of s SNTPEX_SUCCESS s'] show ?thesis by simp
next
  case UD_SNTP_CLIENT_STATE_COMPLETE
  with assms show ?thesis by simp
qed

lemma sapi_owns_fd:
  assumes r: "sntp_sapi st s = Some (rc, s')" and o: "owns_fd s"
  shows "owns_fd s'"
proof (cases st)
  case UD_SNTP_CLIENT_STATE_OPEN
  with r o show ?thesis by (simp add: Open_owns_fd)
next
  case UD_SNTP_CLIENT_STATE_SENDING
  with r Send_frame [of s rc s']
  have "sock (client s') = sock (client s)" "open_fds s' = open_fds s" by simp_all
  then have "owns_fd s' = owns_fd s" by (rule owns_fd_cong)
  with o show ?thesis by simp
next
  case UD_SNTP_CLIENT_STATE_RECEIVING
  with r Receive_frame [of s rc s']
  have "sock (client s') = sock (client s)" "open_fds s' = open_fds s" by simp_all
  then have "owns_fd s' = owns_fd s" by (rule owns_fd_cong)
  with o show ?thesis by simp
next
  case UD_SNTP_CLIENT_STATE_HANDLING_RSP
  with r Handling_frame [of s rc s']
  have "sock (client s') = sock (client s)" "open_fds s' = open_fds s" by simp_all
  then have "owns_fd s' = owns_fd s" by (rule owns_fd_cong)
  with o show ?thesis by simp
next
  case UD_SNTP_CLIENT_STATE_CLOSE
  with r o show ?thesis by (simp add: Close_owns_fd)
next
  case UD_SNTP_CLIENT_STATE_COMPLETE
  with r show ?thesis by simp
qed

lemma same_decoded_refl: "same_decoded a a"
  by (simp add: same_decoded_def)

lemma same_decoded_trans: "same_decoded a b \<Longrightarrow> same_decoded b c \<Longrightarrow> same_decoded a c"
  by (simp add: same_decoded_def)

lemma same_decoded_originate64: "b = a\<lparr>originate64_ts := x\<rparr> \<Longrightarrow> same_decoded a b"
  by (simp add: same_decoded_def)

lemma same_decoded_reference64: "b = a\<lparr>reference64_ts := x\<rparr> \<Longrightarrow> same_decoded a b"
  by (simp add: same_decoded_def)

lemma sapi_decoded:
  assumes r: "sntp_sapi st s = Some (rc, s')"
  shows "(rc = SNTPEX_SUCCESS \<and> state (client s') = UD_SNTP_CLIENT_STATE_COMPLETE) \<or>
         same_decoded (xTimestampList s) (xTimestampList s')"
proof (cases st)
  case UD_SNTP_CLIENT_STATE_OPEN
  with r Open_frame [of s rc s'] show ?thesis by (simp add: same_decoded_refl)
next
  case UD_SNTP_CLIENT_STATE_SENDING
  with r Send_frame [of s rc s'] have "xTimestampList s' =
      (xTimestampList s)\<lparr>originate64_ts := originate64_ts (xTimestampList s')\<rparr>"
    by simp
  then have "same_decoded (xTimestampList s) (xTimestampList s')"
    by (rule same_decoded_originate64)
  then show ?thesis by simp
next
  case UD_SNTP_CLIENT_STATE_RECEIVING
  with r Receive_frame [of s rc s'] have "xTimestampList s' =
      (xTimestampList s)\<lparr>reference64_ts := reference64_ts (xTimestampList s')\<rparr>"
    by simp
  then have "same_decoded (xTimestampList s) (xTimestampList s')"
    by (rule same_decoded_reference64)
  then show ?thesis by simp
next
  case UD_SNTP_CLIENT_STATE_HANDLING_RSP
  with r Handling_frame [of s rc s'] show ?thesis
    by (cases "rc = SNTPEX_SUCCESS") (simp_all add: same_decoded_refl)
next
  case UD_SNTP_CLIENT_STATE_CLOSE
  with r Close_frame [of s rc s'] show ?thesis by (simp add: same_decoded_refl)
next
  case UD_SNTP_CLIENT_STATE_COMPLETE
  with r show ?thesis by simp
qed

text \<open>An invariant that every handler keeps is kept by the driving loop.\<close>

lemma fsm_loop_invariant:
  assumes step: "\<And>s rc1 s1. I SNTPEX_SUCCESS s \<Longrightarrow>
      state (client s) \<noteq> UD_SNTP_CLIENT_STATE_COMPLETE \<Longrightarrow>
      sntp_sapi (state (client s)) s = Some (rc1, s1) \<Longrightarrow> I rc1 s1"
  shows "fsm_loop rc tr s = Some (rc', tr', s') \<Longrightarrow> I rc s \<Longrightarrow> I rc' s'"
proof (induction rc tr s rule: fsm_loop.induct)
  case (1 rc tr s)
  show ?case
  proof (cases "rc = SNTPEX_SUCCESS \<and> state (client s) \<noteq> UD_SNTP_CLIENT_STATE_COMPLETE")
    case False
    with "1.prems" show ?thesis by (subst (asm) fsm_loop.simps) auto
  next
    case True
    with "1.prems"(1) obtain rc1 s1 where
      h: "sntp_sapi (state (client s)) s = Some (rc1, s1)" and
      l: "fsm_loop rc1 (tr @ [(state (client s), rc1)]) s1 = Some (rc', tr', s')"
      by (subst (asm) fsm_loop.simps) (auto split: option.splits)
    from True "1.prems"(2) have "I SNTPEX_SUCCESS s" by simp
    with True h have "I rc1 s1" by (blast intro: step)
    with "1.IH" [OF True h refl l] show ?thesis .
  qed
qed

text \<open>The handlers run by the loop, in order, and the codes they returned.\<close>

lemma fsm_loop_trace:
  "fsm_loop rc tr s = Some (rc', tr', s') \<Longrightarrow> rc = SNTPEX_SUCCESS \<Longrightarrow>
   \<exists>ext. tr' = tr @ ext \<and>
     (rc' = SNTPEX_SUCCESS \<longrightarrow>
        map fst ext = path_from (state (client s)) \<and>
        list_all (\<lambda>e. snd e = SNTPEX_SUCCESS) ext \<and>
        state (client s') = UD_SNTP_CLIENT_STATE_COMPLETE) \<and>
     (rc' \<noteq> SNTPEX_SUCCESS \<longrightarrow>
        ext \<noteq> [] \<and> snd (last ext) = rc' \<and>
        list_all (\<lambda>e. snd e = SNTPEX_SUCCESS) (butlast ext) \<and>
        map fst ext = take (length ext) (path_from (state (client s))))"
proof (induction rc tr s rule: fsm_loop.induct)
  case (1 rc tr s)
  show ?case
  proof (cases "state (client s) = UD_SNTP_CLIENT_STATE_COMPLETE")
    case True
    with "1.prems" have "rc' = SNTPEX_SUCCESS \<and> tr' = tr \<and> s' = s"
      by (subst (asm) fsm_loop.simps) auto
    with True show ?thesis by simp
  next
    case False
    with "1.prems" have T: "rc = SNTPEX_SUCCESS \<and>
        state (client s) \<noteq> UD_SNTP_CLIENT_STATE_COMPLETE" by simp
    with "1.prems"(1) obtain rc1 s1 where
      h: "sntp_sapi (state (client s)) s = Some (rc1, s1)" and
      l: "fsm_loop rc1 (tr @ [(state (client s), rc1)]) s1 = Some (rc', tr', s')"
      by (subst (asm) fsm_loop.simps) (auto split: option.splits)
    note p = path_from_next [OF False]
    show ?thesis
    proof (cases "rc1 = SNTPEX_SUCCESS")
      case False
      with l have e: "rc' = rc1 \<and> tr' = tr @ [(state (client s), rc1)] \<and> s' = s1"
        by (subst (asm) fsm_loop.simps) auto
      with False p show ?thesis by simp
    next
      case True
      with h have n: "state (client s1) = fsm_next (state (client s))"
        by (simp add: sapi_next)
      from "1.IH" [OF T h refl l True] obtain ext where
        x: "tr' = (tr @ [(state (client s), rc1)]) @ ext" and
        y: "rc' = SNTPEX_SUCCESS \<longrightarrow>
              map fst ext = path_from (state (client s1)) \<and>
              list_all (\<lambda>e. snd e = SNTPEX_SUCCESS) ext \<and>
              state (client s') = UD_SNTP_CLIENT_STATE_COMPLETE" and
        z: "rc' \<noteq> SNTPEX_SUCCESS \<longrightarrow>
              ext \<noteq> [] \<and> snd (last ext) = rc' \<and>
              list_all (\<lambda>e. snd e = SNTPEX_SUCCESS) (butlast ext) \<and>
              map fst ext = take (length ext) (path_from (state (client s1)))"
        by blast
      let ?ext = "(state (client s), rc1) # ext"
      have "tr' = tr @ ?ext" using x by simp
      moreover have "rc' = SNTPEX_SUCCESS \<longrightarrow>
              map fst ?ext = path_from (state (client s)) \<and>
              list_all (\<lambda>e. snd e = SNTPEX_SUCCESS) ?ext \<and>
              state (client s') = UD_SNTP_CLIENT_STATE_COMPLETE"
        using y n p True by simp
      moreover have "rc' \<noteq> SNTPEX_SUCCESS \<longrightarrow>
              ?ext \<noteq> [] \<and> snd (last ?ext) = rc' \<and>
              list_all (\<lambda>e. snd e = SNTPEX_SUCCESS) (butlast ?ext) \<and>
              map fst ?ext = take (length ?ext) (path_from (state (client s)))"
        using z n p True by simp
      ultimately show ?thesis by blast
    qed
  qed
qed

section \<open>Async event bridge\<close>

text \<open>
  C9: the event handler is meant to drain the pending bit that is set. With only the
  send-pending bit set (status register 2) and the library initialised, the code takes
  the receive branch, because its condition is the logical conjunction of the register
  and the bit mask: the send-pending bit stays set, the time is captured, and the
  callback is called with the receive event.
\<close>

theorem isr_send_pending_takes_receive_branch:
  "sntpex_eventTriggingFromISR send_pending_system =
     Some (SNTPEX_SUCCESS, send_pending_system
       \<lparr>xsntpAsynchEvent := \<lparr>timestamp = 1700000000000000, event_cb = Some 7, SR = 2\<rparr>,
        unix_timestamps := [1700000000050000],
        cb_calls := [(7, exlibSNTP_SOFTSR_RECV_BIT)]\<rparr>)"
  by (simp add: sntpex_eventTriggingFromISR_def isr_drain_def send_pending_system_def
        demo_system_def get_unix_timestamp_def exlibSNTP_SOFTSR_RECV_BIT_def)

section \<open>Response validation and Kiss-of-Death\<close>

lemma Handling_kod:
  assumes "\<not> payloadLen (client s) < sizeof_x_sntp_request"
    and "req_vn (payload (client s)) \<noteq> 0"
    and "val (req_transmitTimestamp (payload (client s))) \<noteq> 0"
    and "req_mode (payload (client s)) = specNTP_MODE_SERVER \<or>
         req_mode (payload (client s)) = specNTP_MODE_BROADCAST"
    and "seconds (req_originateTimestamp (payload (client s))) = 0"
    and "SlNetUtil_ntohl (fraction (req_originateTimestamp (payload (client s)))) =
         expected_orig_ts (client s)"
    and "req_stratum (payload (client s)) = 0"
  shows "sFct_sntp_HandlingResponse s =
     Some (SNTPEX_ERR_REQUEST_REJECTED,
       s\<lparr>client := (client s)\<lparr>kissCode := be_u32 (payload (client s)) 12\<rparr>\<rparr>)"
proof -
  have f: "fraction (req_originateTimestamp (payload (client s))) =
      SlNetUtil_ntohl (expected_orig_ts (client s))"
    using assms(6) by (simp add: ntohl_eq_iff)
  have k: "SlNetUtil_ntohl (req_referenceId (payload (client s))) = be_u32 (payload (client s)) 12"
    by (simp add: req_referenceId_def ntohl_host_u32)
  from assms(4) have m: "\<not> (req_mode (payload (client s)) \<noteq> specNTP_MODE_SERVER \<and>
      req_mode (payload (client s)) \<noteq> specNTP_MODE_BROADCAST)" by blast
  show ?thesis
    unfolding sFct_sntp_HandlingResponse_def Let_def
    using assms(1,2,3,5,7) m f k by simp
qed

text \<open>
  C5: a reply that passes the length, version, transmit-timestamp, mode and
  originate-nonce checks and has stratum 0 makes response handling return
  RequestRejected, store the big-endian value of the four reference-identifier bytes as
  the Kiss code and leave the timestamp record as it was. \<open>sntpex_client_Kiss_code_get\<close>
  returns that code for the handle, also after the error path has unregistered the event
  and closed the connection, and returns 0 for a NULL handle.
\<close>

theorem kiss_of_death_reply:
  assumes "\<not> payloadLen (client s) < sizeof_x_sntp_request"
    and "req_vn (payload (client s)) \<noteq> 0"
    and "val (req_transmitTimestamp (payload (client s))) \<noteq> 0"
    and "req_mode (payload (client s)) = specNTP_MODE_SERVER \<or>
         req_mode (payload (client s)) = specNTP_MODE_BROADCAST"
    and "seconds (req_originateTimestamp (payload (client s))) = 0"
    and "SlNetUtil_ntohl (fraction (req_originateTimestamp (payload (client s)))) =
         expected_orig_ts (client s)"
    and "req_stratum (payload (client s)) = 0"
  shows "\<exists>s'. sFct_sntp_HandlingResponse s = Some (SNTPEX_ERR_REQUEST_REJECTED, s') \<and>
     kissCode (client s') = be_u32 (payload (client s)) 12 \<and>
     xTimestampList s' = xTimestampList s \<and>
     sntpex_client_Kiss_code_get NonNULL s' = be_u32 (payload (client s)) 12 \<and>
     sntpex_client_Kiss_code_get NULL s' = 0 \<and>
     (\<forall>rc s''. sFct_sntp_CloseConnection
         (prv_utility_unregister_event exlibSNTP_SOFTSR_RECV_BIT s') = Some (rc, s'') \<longrightarrow>
        sntpex_client_Kiss_code_get NonNULL s'' = be_u32 (payload (client s)) 12)"
proof -
  let ?s' = "s\<lparr>client := (client s)\<lparr>kissCode := be_u32 (payload (client s)) 12\<rparr>\<rparr>"
  have h: "sFct_sntp_HandlingResponse s = Some (SNTPEX_ERR_REQUEST_REJECTED, ?s')"
    by (rule Handling_kod [OF assms])
  have c: "sntpex_client_Kiss_code_get NonNULL s'' = be_u32 (payload (client s)) 12"
    if "sFct_sntp_CloseConnection
         (prv_utility_unregister_event exlibSNTP_SOFTSR_RECV_BIT ?s') = Some (rc, s'')"
    for rc s''
    using Close_frame [OF that]
    by (simp add: sntpex_client_Kiss_code_get_def prv_utility_unregister_event_def)
  show ?thesis
    apply (rule exI [of _ ?s'])
    using h c by (simp add: sntpex_client_Kiss_code_get_def)
qed

lemma kod_system_checks:
  "\<not> payloadLen (client kod_system) < sizeof_x_sntp_request"
  "req_vn (payload (client kod_system)) \<noteq> 0"
  "val (req_transmitTimestamp (payload (client kod_system))) \<noteq> 0"
  "req_mode (payload (client kod_system)) = specNTP_MODE_SERVER \<or>
   req_mode (payload (client kod_system)) = specNTP_MODE_BROADCAST"
  "seconds (req_originateTimestamp (payload (client kod_system))) = 0"
  "SlNetUtil_ntohl (fraction (req_originateTimestamp (payload (client kod_system)))) =
     expected_orig_ts (client kod_system)"
  "req_stratum (payload (client kod_system)) = 0"
  "be_u32 (payload (client kod_system)) 12 = 0x52415445"
  by code_simp+

text \<open>The reference identifier "RATE" gives the code \<open>0x52415445\<close>.\<close>

theorem kiss_of_death_reply_witness:
  "map_option fst (sFct_sntp_HandlingResponse kod_system) = Some SNTPEX_ERR_REQUEST_REJECTED \<and>
   map_option (sntpex_client_Kiss_code_get NonNULL \<circ> snd) (sFct_sntp_HandlingResponse kod_system)
     = Some 0x52415445 \<and>
   map_option (xTimestampList \<circ> snd) (sFct_sntp_HandlingResponse kod_system) = Some demo_ctx"
proof -
  from kiss_of_death_reply [OF kod_system_checks(1-7)] obtain s' where
    "sFct_sntp_HandlingResponse kod_system = Some (SNTPEX_ERR_REQUEST_REJECTED, s')"
    "sntpex_client_Kiss_code_get NonNULL s' = be_u32 (payload (client kod_system)) 12"
    "xTimestampList s' = xTimestampList kod_system"
    by blast
  moreover have "xTimestampList kod_system = demo_ctx"
    by (simp add: kod_system_def demo_system_def)
  ultimately show ?thesis by (simp add: kod_system_checks(8))
qed

lemma length_store_u32 [simp]: "length (store_u32 bs off w) = length bs"
  by (simp add: store_u32_def)

lemma length_set_req_vn [simp]: "length (set_req_vn v bs) = length bs"
  by (simp add: set_req_vn_def)

lemma length_set_req_mode [simp]: "length (set_req_mode m bs) = length bs"
  by (simp add: set_req_mode_def)

lemma length_memset0: "n \<le> length (memset0 bs n)"
  by (simp add: memset0_def)

lemma host_u32_store_u32_below:
  "off' + 3 < off \<Longrightarrow> host_u32 (store_u32 bs off w) off' = host_u32 bs off'"
  by (simp add: host_u32_def store_u32_def)

lemma build_request_nonce:
  assumes "prv_utility_build_request s = Some (rc, s1)"
  shows "seconds (req_transmitTimestamp (payload (client s1))) = 0 \<and>
         SlNetUtil_ntohl (fraction (req_transmitTimestamp (payload (client s1)))) =
           expected_orig_ts (client s1) \<and>
         os_ticks s = expected_orig_ts (client s1) # os_ticks s1"
proof -
  define r0 where "r0 = (set_req_mode specNTP_MODE_CLIENT
      (set_req_vn specNTP_VERSION_V4
        (memset0 (payload (client s)) (unat sizeof_x_sntp_request))))[1 := 2, 2 := 0x06, 3 := 0xec]"
  have l0: "48 \<le> length r0"
    using length_memset0 [of "unat sizeof_x_sntp_request" "payload (client s)"]
    by (simp add: r0_def sizeof_x_sntp_request_def)
  from assms obtain tick ts where
    t: "os_ticks s = tick # ts" and
    s1: "s1 = s\<lparr>os_ticks := ts, client := (client s)
            \<lparr>expected_orig_ts := tick,
             payload := store_u32 (store_u32 r0 40 0) 44 (SlNetUtil_htonl tick),
             payloadLen := sizeof_x_sntp_request\<rparr>\<rparr>"
    by (auto simp add: prv_utility_build_request_def Let_def get_os_tick_def r0_def
          split: list.splits)
  let ?p = "store_u32 (store_u32 r0 40 0) 44 (SlNetUtil_htonl tick)"
  have a: "host_u32 ?p 44 = SlNetUtil_htonl tick"
    using l0 by (simp add: host_u32_store_u32)
  have "host_u32 ?p 40 = host_u32 (store_u32 r0 40 0) 40"
    by (simp add: host_u32_store_u32_below)
  also have "\<dots> = 0" using l0 by (simp add: host_u32_store_u32)
  finally have b: "host_u32 ?p 40 = 0" .
  have c: "SlNetUtil_ntohl (SlNetUtil_htonl tick) = tick"
    by (simp add: SlNetUtil_ntohl_def htonl_involution)
  show ?thesis
    using a b c t by (simp add: s1 req_transmitTimestamp_def host_ts_def)
qed

lemma Handling_invalid_unchanged:
  assumes "sFct_sntp_HandlingResponse s = Some (SNTPEX_ERR_INVALID_MESSAGE, s')"
  shows "s' = s"
  using assms
  by (auto simp add: sFct_sntp_HandlingResponse_def Let_def split: if_splits)

lemma Handling_accepts:
  assumes "sFct_sntp_HandlingResponse s = Some (rc, s')"
    and "rc \<noteq> SNTPEX_ERR_INVALID_MESSAGE"
  shows "seconds (req_originateTimestamp (payload (client s))) = 0 \<and>
         fraction (req_originateTimestamp (payload (client s))) =
           SlNetUtil_ntohl (expected_orig_ts (client s))"
  using assms
  by (auto simp add: sFct_sntp_HandlingResponse_def Let_def split: if_splits)

lemma Handling_mismatch:
  assumes "seconds (req_originateTimestamp (payload (client s))) \<noteq> 0 \<or>
      fraction (req_originateTimestamp (payload (client s))) \<noteq>
           SlNetUtil_ntohl (expected_orig_ts (client s))"
  shows "sFct_sntp_HandlingResponse s = Some (SNTPEX_ERR_INVALID_MESSAGE, s)"
  using assms
  by (auto simp add: sFct_sntp_HandlingResponse_def Let_def)

text \<open>
  C6: response handling lets a reply through (any result other than InvalidMessage) only
  when the seconds half of its originate timestamp is 0 and the fraction half, after
  byte-order normalisation, equals \<open>expected_orig_ts\<close>; a mismatch in either half
  gives InvalidMessage and changes nothing. \<open>expected_orig_ts\<close> is the tick the
  request encoder read and placed, in network byte order, into the fraction of the
  transmit timestamp of the request, whose seconds half is 0.
\<close>

theorem originate_nonce_check:
  "(\<forall>rc s'. sFct_sntp_HandlingResponse s = Some (rc, s') \<and>
        rc \<noteq> SNTPEX_ERR_INVALID_MESSAGE \<longrightarrow>
      seconds (req_originateTimestamp (payload (client s))) = 0 \<and>
      SlNetUtil_ntohl (fraction (req_originateTimestamp (payload (client s)))) =
        expected_orig_ts (client s)) \<and>
   (seconds (req_originateTimestamp (payload (client s))) \<noteq> 0 \<or>
    SlNetUtil_ntohl (fraction (req_originateTimestamp (payload (client s)))) \<noteq>
        expected_orig_ts (client s) \<longrightarrow>
      sFct_sntp_HandlingResponse s = Some (SNTPEX_ERR_INVALID_MESSAGE, s)) \<and>
   (\<forall>rc s1. prv_utility_build_request s = Some (rc, s1) \<longrightarrow>
      seconds (req_transmitTimestamp (payload (client s1))) = 0 \<and>
      SlNetUtil_ntohl (fraction (req_transmitTimestamp (payload (client s1)))) =
        expected_orig_ts (client s1) \<and>
      os_ticks s = expected_orig_ts (client s1) # os_ticks s1)"
proof (intro conjI allI impI)
  fix rc s'
  assume a: "sFct_sntp_HandlingResponse s = Some (rc, s') \<and>
        rc \<noteq> SNTPEX_ERR_INVALID_MESSAGE"
  then show "seconds (req_originateTimestamp (payload (client s))) = 0"
    using Handling_accepts [of s rc s'] by simp
  from a show "SlNetUtil_ntohl (fraction (req_originateTimestamp (payload (client s)))) =
        expected_orig_ts (client s)"
    using Handling_accepts [of s rc s'] by (simp add: ntohl_involution)
next
  assume "seconds (req_originateTimestamp (payload (client s))) \<noteq> 0 \<or>
    SlNetUtil_ntohl (fraction (req_originateTimestamp (payload (client s)))) \<noteq>
        expected_orig_ts (client s)"
  then have "seconds (req_originateTimestamp (payload (client s))) \<noteq> 0 \<or>
      fraction (req_originateTimestamp (payload (client s))) \<noteq>
           SlNetUtil_ntohl (expected_orig_ts (client s))"
    using ntohl_eq_iff by blast
  then show "sFct_sntp_HandlingResponse s = Some (SNTPEX_ERR_INVALID_MESSAGE, s)"
    by (rule Handling_mismatch)
next
  fix rc s1
  assume b: "prv_utility_build_request s = Some (rc, s1)"
  from build_request_nonce [OF b]
  show "seconds (req_transmitTimestamp (payload (client s1))) = 0"
    and "SlNetUtil_ntohl (fraction (req_transmitTimestamp (payload (client s1)))) =
        expected_orig_ts (client s1)"
    and "os_ticks s = expected_orig_ts (client s1) # os_ticks s1"
    by simp_all
qed

text \<open>
  A reply echoing \<open>0x1234\<close> is rejected by a handle expecting \<open>0x1235\<close> and let
  through by one expecting \<open>0x1234\<close>; the request built at tick \<open>0x1000\<close> carries it.
\<close>

theorem originate_nonce_check_witness:
  "SlNetUtil_ntohl (fraction (req_originateTimestamp (payload (client wrong_nonce_system)))) = 0x1234 \<and>
   expected_orig_ts (client wrong_nonce_system) = 0x1235 \<and>
   sFct_sntp_HandlingResponse wrong_nonce_system =
     Some (SNTPEX_ERR_INVALID_MESSAGE, wrong_nonce_system) \<and>
   map_option fst (sFct_sntp_HandlingResponse kod_system) = Some SNTPEX_ERR_REQUEST_REJECTED \<and>
   SlNetUtil_ntohl (fraction (req_originateTimestamp (payload (client kod_system)))) =
     expected_orig_ts (client kod_system) \<and>
   map_option (expected_orig_ts \<circ> client \<circ> snd) (prv_utility_build_request demo_system) =
     Some 0x1000 \<and>
   map_option (SlNetUtil_ntohl \<circ> fraction \<circ> req_transmitTimestamp \<circ> payload \<circ> client \<circ> snd)
     (prv_utility_build_request demo_system) = Some 0x1000"
proof -
  have f: "SlNetUtil_ntohl (fraction (req_originateTimestamp
      (payload (client wrong_nonce_system)))) = 0x1234"
    by code_simp
  have e: "expected_orig_ts (client wrong_nonce_system) = 0x1235"
    by code_simp
  have n: "SlNetUtil_ntohl (fraction (req_originateTimestamp
      (payload (client wrong_nonce_system)))) \<noteq> expected_orig_ts (client wrong_nonce_system)"
    by (simp add: f e)
  note T = originate_nonce_check [of wrong_nonce_system]
  from T n have i: "sFct_sntp_HandlingResponse wrong_nonce_system =
     Some (SNTPEX_ERR_INVALID_MESSAGE, wrong_nonce_system)" by blast
  have k: "map_option fst (sFct_sntp_HandlingResponse kod_system) =
      Some SNTPEX_ERR_REQUEST_REJECTED"
    by code_simp
  then obtain s' where "sFct_sntp_HandlingResponse kod_system =
      Some (SNTPEX_ERR_REQUEST_REJECTED, s')" by auto
  with originate_nonce_check [of kod_system]
  have a: "SlNetUtil_ntohl (fraction (req_originateTimestamp (payload (client kod_system)))) =
     expected_orig_ts (client kod_system)" by blast
  have b: "map_option (expected_orig_ts \<circ> client \<circ> snd) (prv_utility_build_request demo_system) =
     Some 0x1000" by code_simp
  then obtain rc s1 where b1: "prv_utility_build_request demo_system = Some (rc, s1)"
    and b2: "expected_orig_ts (client s1) = 0x1000" by auto
  with originate_nonce_check [of demo_system]
  have "SlNetUtil_ntohl (fraction (req_transmitTimestamp (payload (client s1)))) = 0x1000"
    by auto
  with b1 have c: "map_option (SlNetUtil_ntohl \<circ> fraction \<circ> req_transmitTimestamp \<circ> payload \<circ> client \<circ> snd)
     (prv_utility_build_request demo_system) = Some 0x1000" by simp
  from f e i k a b c show ?thesis by blast
qed

text \<open>
  C8, as stated, fails: a reply with version 0 is rejected as InvalidMessage before the
  Kiss code is cleared, and the handle still returns the code of the earlier call.
\<close>

theorem stale_kiss_code_counterexample:
  "sFct_sntp_HandlingResponse stale_kiss_system =
     Some (SNTPEX_ERR_INVALID_MESSAGE, stale_kiss_system) \<and>
   sntpex_client_Kiss_code_get NonNULL stale_kiss_system = 0x52415445"
  by code_simp

text \<open>
  C8, amended: response handling ends in one of three ways. A reply rejected as
  InvalidMessage leaves the Kiss code of the handle as it was; a reply that passed the
  validation and has a stratum other than 0 is accepted and the Kiss code is 0; a reply
  that passed the validation and has stratum 0 is rejected with RequestRejected and the
  Kiss code is the reference identifier in host order. So the code is cleared once the
  validation has passed, right before the stratum is looked at, and set only for a
  stratum-0 reply.
\<close>

theorem kiss_code_cleared_after_validation:
  assumes "sFct_sntp_HandlingResponse s = Some (rc, s')"
  shows "(rc = SNTPEX_ERR_INVALID_MESSAGE \<and> kissCode (client s') = kissCode (client s)) \<or>
         (rc = SNTPEX_SUCCESS \<and> kissCode (client s') = 0 \<and>
            req_stratum (payload (client s)) \<noteq> 0) \<or>
         (rc = SNTPEX_ERR_REQUEST_REJECTED \<and> req_stratum (payload (client s)) = 0 \<and>
            kissCode (client s') = SlNetUtil_ntohl (req_referenceId (payload (client s))))"
  using assms
  by (auto simp add: sFct_sntp_HandlingResponse_def Let_def split: if_splits)

text \<open>Both rejections, on the two handles of the scenarios.\<close>

theorem kiss_code_cleared_after_validation_witness:
  "sFct_sntp_HandlingResponse stale_kiss_system =
     Some (SNTPEX_ERR_INVALID_MESSAGE, stale_kiss_system) \<and>
   kissCode (client stale_kiss_system) = 0x52415445 \<and>
   map_option fst (sFct_sntp_HandlingResponse kod_system) = Some SNTPEX_ERR_REQUEST_REJECTED \<and>
   req_stratum (payload (client kod_system)) = 0"
proof -
  have a: "sFct_sntp_HandlingResponse stale_kiss_system =
     Some (SNTPEX_ERR_INVALID_MESSAGE, stale_kiss_system)" by code_simp
  have b: "kissCode (client stale_kiss_system) = 0x52415445" by code_simp
  have k: "map_option fst (sFct_sntp_HandlingResponse kod_system) =
      Some SNTPEX_ERR_REQUEST_REJECTED" by code_simp
  then obtain s' where h: "sFct_sntp_HandlingResponse kod_system =
      Some (SNTPEX_ERR_REQUEST_REJECTED, s')" by auto
  from kiss_code_cleared_after_validation [OF h]
  have c: "req_stratum (payload (client kod_system)) = 0" by simp
  from a b k c show ?thesis by blast
qed

section \<open>One call of sntpex\_client\_timestamp\_get\<close>

lemma timestamp_get_elim:
  assumes "sntpex_client_timestamp_get NonNULL NonNULL s = Some (rc, tr, s')"
  obtains tick s1 tr0 s3 where
    "get_os_tick s = Some (tick, s1)"
    "fsm_loop SNTPEX_SUCCESS [] (s1\<lparr>client := (client s1)\<lparr>startTime := tick\<rparr>\<rparr>) =
       Some (rc, tr0, s3)"
    "rc = SNTPEX_SUCCESS \<longrightarrow> tr = tr0 \<and>
       s' = s3\<lparr>client := (client s3)\<lparr>state := UD_SNTP_CLIENT_STATE_SENDING\<rparr>\<rparr>"
    "rc \<noteq> SNTPEX_SUCCESS \<longrightarrow> (\<exists>rc_close.
       sFct_sntp_CloseConnection (prv_utility_unregister_event exlibSNTP_SOFTSR_RECV_BIT s3)
         = Some (rc_close, s') \<and> tr = tr0 @ [(UD_SNTP_CLIENT_STATE_CLOSE, rc_close)])"
proof -
  note A = assms [unfolded sntpex_client_timestamp_get_def Let_def, simplified]
  obtain tick s1 where k: "get_os_tick s = Some (tick, s1)"
    using A by (cases "get_os_tick s") auto
  note A1 = A [unfolded k, simplified]
  let ?s2 = "s1\<lparr>client := (client s1)\<lparr>startTime := tick\<rparr>\<rparr>"
  obtain rc0 tr0 s3 where l: "fsm_loop SNTPEX_SUCCESS [] ?s2 = Some (rc0, tr0, s3)"
    using A1 by (cases "fsm_loop SNTPEX_SUCCESS [] ?s2") auto
  note A2 = A1 [unfolded l, simplified]
  show thesis
  proof (cases "rc0 = SNTPEX_SUCCESS")
    case True
    with A2 have "rc = rc0 \<and> tr = tr0 \<and>
        s' = s3\<lparr>client := (client s3)\<lparr>state := UD_SNTP_CLIENT_STATE_SENDING\<rparr>\<rparr>"
      by auto
    with k l True that show thesis by blast
  next
    case False
    let ?s4 = "prv_utility_unregister_event exlibSNTP_SOFTSR_RECV_BIT s3"
    from False A2 obtain rcc s5 where
      c: "sFct_sntp_CloseConnection ?s4 = Some (rcc, s5)"
      by (cases "sFct_sntp_CloseConnection ?s4") auto
    with False A2 have "rc = rc0 \<and> s' = s5 \<and>
        tr = tr0 @ [(UD_SNTP_CLIENT_STATE_CLOSE, rcc)]" by auto
    with k l c False that show thesis by blast
  qed
qed

lemma timestamp_get_null:
  assumes "p_client = NULL \<or> xTimestampCtx = NULL"
  shows "sntpex_client_timestamp_get p_client xTimestampCtx s =
     Some (SNTPEX_ERR_NULL_PTR, [], s)"
  using assms by (auto simp add: sntpex_client_timestamp_get_def)

lemma pointer_cases: "p = NULL \<or> p = NonNULL"
  by (cases p) simp_all

lemma fsm_loop_decoded:
  assumes "fsm_loop SNTPEX_SUCCESS tr s = Some (rc, tr', s')" and "rc \<noteq> SNTPEX_SUCCESS"
  shows "same_decoded (xTimestampList s) (xTimestampList s')"
proof -
  let ?I = "\<lambda>r (u :: system). (r = SNTPEX_SUCCESS \<and>
      state (client u) = UD_SNTP_CLIENT_STATE_COMPLETE) \<or>
      same_decoded (xTimestampList s) (xTimestampList u)"
  have "?I rc s'"
  proof (rule fsm_loop_invariant [where I = ?I, OF _ assms(1)])
    fix u rc1 u1
    assume i: "?I SNTPEX_SUCCESS u"
      and n: "state (client u) \<noteq> UD_SNTP_CLIENT_STATE_COMPLETE"
      and h: "sntp_sapi (state (client u)) u = Some (rc1, u1)"
    from i n have d: "same_decoded (xTimestampList s) (xTimestampList u)" by simp
    from sapi_decoded [OF h] show "?I rc1 u1"
    proof
      assume "rc1 = SNTPEX_SUCCESS \<and> state (client u1) = UD_SNTP_CLIENT_STATE_COMPLETE"
      then show ?thesis by simp
    next
      assume "same_decoded (xTimestampList u) (xTimestampList u1)"
      with d have "same_decoded (xTimestampList s) (xTimestampList u1)"
        by (rule same_decoded_trans)
      then show ?thesis by simp
    qed
  next
    show "?I SNTPEX_SUCCESS s" by (simp add: same_decoded_refl)
  qed
  with assms(2) show ?thesis by simp
qed

text \<open>
  C1, as stated, fails: when the transport fails to send, the call returns TransmitError
  and \<open>originate64_ts\<close> of the caller's record, 0 before the call, holds the time
  captured before the transmission.
\<close>

theorem error_path_writes_originate64_counterexample:
  "map_option fst (sntpex_client_timestamp_get NonNULL NonNULL send_fails_system) =
     Some SNTPEX_ERR_TX \<and>
   map_option (originate64_ts \<circ> xTimestampList \<circ> snd \<circ> snd)
     (sntpex_client_timestamp_get NonNULL NonNULL send_fails_system) =
     Some 1700000000000000 \<and>
   originate64_ts (xTimestampList send_fails_system) = 0"
  by code_simp

text \<open>
  C1, amended: when the call returns an error code, the caller's record is as before
  but for \<open>originate64_ts\<close> (written by the Sending state before it transmits) and
  \<open>reference64_ts\<close> (written by the Receiving state after a read of the full length):
  the NTP-format timestamps, \<open>receive64_ts\<close> and \<open>transmit64_ts\<close> are untouched, so
  they are written only by a call that returns Success. With a NULL handle or a NULL
  record nothing is written at all.
\<close>

theorem error_leaves_decoded_fields:
  assumes "sntpex_client_timestamp_get p_client xTimestampCtx s = Some (rc, tr, s')"
    and "rc \<noteq> SNTPEX_SUCCESS"
  shows "xTimestampList s' = (xTimestampList s)
           \<lparr>originate64_ts := originate64_ts (xTimestampList s'),
            reference64_ts := reference64_ts (xTimestampList s')\<rparr> \<and>
         (p_client = NULL \<or> xTimestampCtx = NULL \<longrightarrow> xTimestampList s' = xTimestampList s)"
proof (cases "p_client = NULL \<or> xTimestampCtx = NULL")
  case True
  with assms(1) have "s' = s" by (simp add: timestamp_get_null)
  then show ?thesis by simp
next
  case False
  then have p: "p_client = NonNULL" "xTimestampCtx = NonNULL"
    using pointer_cases [of p_client] pointer_cases [of xTimestampCtx] by auto
  from assms(1) [unfolded p] obtain tick s1 tr0 s3 where
    k: "get_os_tick s = Some (tick, s1)" and
    l: "fsm_loop SNTPEX_SUCCESS [] (s1\<lparr>client := (client s1)\<lparr>startTime := tick\<rparr>\<rparr>) =
       Some (rc, tr0, s3)" and
    g: "rc = SNTPEX_SUCCESS \<longrightarrow> tr = tr0 \<and>
       s' = s3\<lparr>client := (client s3)\<lparr>state := UD_SNTP_CLIENT_STATE_SENDING\<rparr>\<rparr>" and
    e: "rc \<noteq> SNTPEX_SUCCESS \<longrightarrow> (\<exists>rc_close.
       sFct_sntp_CloseConnection (prv_utility_unregister_event exlibSNTP_SOFTSR_RECV_BIT s3)
         = Some (rc_close, s') \<and> tr = tr0 @ [(UD_SNTP_CLIENT_STATE_CLOSE, rc_close)])"
    by (rule timestamp_get_elim)
  from e assms(2) obtain rcc where
    c: "sFct_sntp_CloseConnection (prv_utility_unregister_event exlibSNTP_SOFTSR_RECV_BIT s3)
         = Some (rcc, s')" by blast
  have x5: "xTimestampList s' = xTimestampList s3"
    using Close_frame [OF c] by (simp add: prv_utility_unregister_event_def)
  have x2: "xTimestampList (s1\<lparr>client := (client s1)\<lparr>startTime := tick\<rparr>\<rparr>) = xTimestampList s"
    using get_os_tick_frame [OF k] by simp
  from fsm_loop_decoded [OF l assms(2)] x2 x5
  have "same_decoded (xTimestampList s) (xTimestampList s')" by simp
  then have "xTimestampList s' = (xTimestampList s)
           \<lparr>originate64_ts := originate64_ts (xTimestampList s'),
            reference64_ts := reference64_ts (xTimestampList s')\<rparr>"
    by (intro xTimestampCtx_t.equality) (simp_all add: same_decoded_def)
  with False show ?thesis by simp
qed

text \<open>The failed transmission leaves the decoded fields of the zeroed record.\<close>

theorem error_leaves_decoded_fields_witness:
  "map_option fst (sntpex_client_timestamp_get NonNULL NonNULL send_fails_system) =
     Some SNTPEX_ERR_TX \<and>
   map_option (transmitTimestamp \<circ> xTimestampList \<circ> snd \<circ> snd)
     (sntpex_client_timestamp_get NonNULL NonNULL send_fails_system) =
     Some (transmitTimestamp demo_ctx) \<and>
   map_option (receive64_ts \<circ> xTimestampList \<circ> snd \<circ> snd)
     (sntpex_client_timestamp_get NonNULL NonNULL send_fails_system) =
     Some (receive64_ts demo_ctx)"
proof -
  have a: "map_option fst (sntpex_client_timestamp_get NonNULL NonNULL send_fails_system) =
     Some SNTPEX_ERR_TX" by code_simp
  then obtain tr s' where
    r: "sntpex_client_timestamp_get NonNULL NonNULL send_fails_system =
      Some (SNTPEX_ERR_TX, tr, s')" by auto
  have x: "xTimestampList send_fails_system = demo_ctx"
    by (simp add: send_fails_system_def demo_system_def)
  from error_leaves_decoded_fields [OF r] have
    "xTimestampList s' = (xTimestampList send_fails_system)
           \<lparr>originate64_ts := originate64_ts (xTimestampList s'),
            reference64_ts := reference64_ts (xTimestampList s')\<rparr>" by simp
  then have "transmitTimestamp (xTimestampList s') = transmitTimestamp demo_ctx \<and>
      receive64_ts (xTimestampList s') = receive64_ts demo_ctx"
    by (metis x xTimestampCtx_t.select_convs(4,7) xTimestampCtx_t.surjective
          xTimestampCtx_t.update_convs(5,6))
  with a r show ?thesis by simp
qed

lemma sapi_sock:
  assumes r: "sntp_sapi st s = Some (rc, s')"
  shows "(sock (client s') = None) = (sock (client s) = None)"
proof (cases st)
  case UD_SNTP_CLIENT_STATE_OPEN
  with r Open_frame [of s rc s'] show ?thesis by simp
next
  case UD_SNTP_CLIENT_STATE_SENDING
  with r Send_frame [of s rc s'] show ?thesis by simp
next
  case UD_SNTP_CLIENT_STATE_RECEIVING
  with r Receive_frame [of s rc s'] show ?thesis by simp
next
  case UD_SNTP_CLIENT_STATE_HANDLING_RSP
  with r Handling_frame [of s rc s'] show ?thesis by simp
next
  case UD_SNTP_CLIENT_STATE_CLOSE
  with r Close_frame [of s rc s'] show ?thesis by simp
next
  case UD_SNTP_CLIENT_STATE_COMPLETE
  with r show ?thesis by simp
qed

lemma fsm_loop_sock:
  assumes "fsm_loop rc tr s = Some (rc', tr', s')" and "sock (client s) \<noteq> None"
  shows "sock (client s') \<noteq> None"
proof (rule fsm_loop_invariant [where I = "\<lambda>r u. sock (client u) \<noteq> None", OF _ assms])
  fix u rc1 u1
  assume "sock (client u) \<noteq> None" and "sntp_sapi (state (client u)) u = Some (rc1, u1)"
  then show "sock (client u1) \<noteq> None" by (simp add: sapi_sock)
qed

lemma fsm_loop_owns_fd:
  assumes "fsm_loop rc tr s = Some (rc', tr', s')" and "owns_fd s"
  shows "owns_fd s'"
proof (rule fsm_loop_invariant [where I = "\<lambda>r u. owns_fd u", OF _ assms])
  fix u rc1 u1
  assume "owns_fd u" and "sntp_sapi (state (client u)) u = Some (rc1, u1)"
  then show "owns_fd u1" by (simp add: sapi_owns_fd)
qed

lemma Close_sock:
  assumes "sFct_sntp_CloseConnection s = Some (rc, s')" and "sock (client s) \<noteq> None"
  shows "rc = SNTPEX_SUCCESS \<and> map_option fd (sock (client s')) = Some (- 1) \<and>
         state (client s') = UD_SNTP_CLIENT_STATE_OPEN \<and>
         xsntpAsynchEvent s' = xsntpAsynchEvent s"
  using assms
  by (auto simp add: sFct_sntp_CloseConnection_def Let_def SlNetSock_close_def
        split: option.splits if_splits)

lemma distinct_path_from: "distinct (path_from st)"
  by (cases st) simp_all

lemma and_not_and: "((x :: 8 word) AND NOT b) AND b = 0"
  by (simp add: and.assoc)

text \<open>
  C3, as stated, fails: the successful exchange runs the handlers of Open, Sending,
  Receiving and HandlingResponse and no other; the Closing handler does not run, the
  descriptor stays open and the handle is left in state Sending.
\<close>

theorem success_path_skips_closing_counterexample:
  "map_option fst (sntpex_client_timestamp_get NonNULL NonNULL demo_system) =
     Some SNTPEX_SUCCESS \<and>
   map_option (map fst \<circ> fst \<circ> snd) (sntpex_client_timestamp_get NonNULL NonNULL demo_system) =
     Some [UD_SNTP_CLIENT_STATE_OPEN, UD_SNTP_CLIENT_STATE_SENDING,
           UD_SNTP_CLIENT_STATE_RECEIVING, UD_SNTP_CLIENT_STATE_HANDLING_RSP] \<and>
   map_option (open_fds \<circ> snd \<circ> snd) (sntpex_client_timestamp_get NonNULL NonNULL demo_system) =
     Some [3] \<and>
   map_option (state \<circ> client \<circ> snd \<circ> snd)
     (sntpex_client_timestamp_get NonNULL NonNULL demo_system) =
     Some UD_SNTP_CLIENT_STATE_SENDING"
  by code_simp

text \<open>
  C3, amended: a call runs the handlers along Closing, Open, Sending, Receiving,
  HandlingResponse only, starting at the state of the handle. A successful call runs
  every handler from that state up to HandlingResponse, in that order and each returning
  Success (from Open: Open, Sending, Receiving, HandlingResponse); HandlingResponse
  reaches Complete without the Closing handler, and the handle is left in state Sending.
  A failed call runs an initial part of that sequence and then the Closing handler.
\<close>

theorem handlers_run_in_order:
  assumes "sntpex_client_timestamp_get NonNULL NonNULL s = Some (rc, tr, s')"
  shows "(rc = SNTPEX_SUCCESS \<longrightarrow>
            map fst tr = path_from (state (client s)) \<and>
            list_all (\<lambda>e. snd e = SNTPEX_SUCCESS) tr \<and>
            state (client s') = UD_SNTP_CLIENT_STATE_SENDING) \<and>
         (rc = SNTPEX_SUCCESS \<and> state (client s) = UD_SNTP_CLIENT_STATE_OPEN \<longrightarrow>
            map fst tr = [UD_SNTP_CLIENT_STATE_OPEN, UD_SNTP_CLIENT_STATE_SENDING,
                          UD_SNTP_CLIENT_STATE_RECEIVING, UD_SNTP_CLIENT_STATE_HANDLING_RSP]) \<and>
         (rc \<noteq> SNTPEX_SUCCESS \<longrightarrow>
            1 < length tr \<and>
            map fst tr = take (length tr - 1) (path_from (state (client s))) @
                           [UD_SNTP_CLIENT_STATE_CLOSE])"
proof -
  from assms obtain tick s1 tr0 s3 where
    k: "get_os_tick s = Some (tick, s1)" and
    l: "fsm_loop SNTPEX_SUCCESS [] (s1\<lparr>client := (client s1)\<lparr>startTime := tick\<rparr>\<rparr>) =
       Some (rc, tr0, s3)" and
    g: "rc = SNTPEX_SUCCESS \<longrightarrow> tr = tr0 \<and>
       s' = s3\<lparr>client := (client s3)\<lparr>state := UD_SNTP_CLIENT_STATE_SENDING\<rparr>\<rparr>" and
    e: "rc \<noteq> SNTPEX_SUCCESS \<longrightarrow> (\<exists>rc_close.
       sFct_sntp_CloseConnection (prv_utility_unregister_event exlibSNTP_SOFTSR_RECV_BIT s3)
         = Some (rc_close, s') \<and> tr = tr0 @ [(UD_SNTP_CLIENT_STATE_CLOSE, rc_close)])"
    by (rule timestamp_get_elim)
  let ?s2 = "s1\<lparr>client := (client s1)\<lparr>startTime := tick\<rparr>\<rparr>"
  have st: "state (client ?s2) = state (client s)"
    using get_os_tick_frame [OF k] by simp
  from fsm_loop_trace [OF l refl] have
    y: "rc = SNTPEX_SUCCESS \<longrightarrow>
        map fst tr0 = path_from (state (client s)) \<and>
        list_all (\<lambda>e. snd e = SNTPEX_SUCCESS) tr0 \<and>
        state (client s3) = UD_SNTP_CLIENT_STATE_COMPLETE" and
    z: "rc \<noteq> SNTPEX_SUCCESS \<longrightarrow>
        tr0 \<noteq> [] \<and> snd (last tr0) = rc \<and>
        list_all (\<lambda>e. snd e = SNTPEX_SUCCESS) (butlast tr0) \<and>
        map fst tr0 = take (length tr0) (path_from (state (client s)))"
    unfolding st by auto
  have 1: "rc = SNTPEX_SUCCESS \<longrightarrow>
            map fst tr = path_from (state (client s)) \<and>
            list_all (\<lambda>e. snd e = SNTPEX_SUCCESS) tr \<and>
            state (client s') = UD_SNTP_CLIENT_STATE_SENDING"
    using g y by simp
  then have 2: "rc = SNTPEX_SUCCESS \<and> state (client s) = UD_SNTP_CLIENT_STATE_OPEN \<longrightarrow>
            map fst tr = [UD_SNTP_CLIENT_STATE_OPEN, UD_SNTP_CLIENT_STATE_SENDING,
                          UD_SNTP_CLIENT_STATE_RECEIVING, UD_SNTP_CLIENT_STATE_HANDLING_RSP]"
    by simp
  have 3: "rc \<noteq> SNTPEX_SUCCESS \<longrightarrow>
            1 < length tr \<and>
            map fst tr = take (length tr - 1) (path_from (state (client s))) @
                           [UD_SNTP_CLIENT_STATE_CLOSE]"
  proof
    assume n: "rc \<noteq> SNTPEX_SUCCESS"
    with e obtain rcc where t: "tr = tr0 @ [(UD_SNTP_CLIENT_STATE_CLOSE, rcc)]" by blast
    from n z have "tr0 \<noteq> []"
      "map fst tr0 = take (length tr0) (path_from (state (client s)))" by simp_all
    with t show "1 < length tr \<and>
            map fst tr = take (length tr - 1) (path_from (state (client s))) @
                           [UD_SNTP_CLIENT_STATE_CLOSE]"
      by (cases tr0) simp_all
  qed
  from 1 2 3 show ?thesis by blast
qed

text \<open>The successful exchange, and the one that fails in the Sending state.\<close>

theorem handlers_run_in_order_witness:
  "map_option fst (sntpex_client_timestamp_get NonNULL NonNULL demo_system) =
     Some SNTPEX_SUCCESS \<and>
   state (client demo_system) = UD_SNTP_CLIENT_STATE_OPEN \<and>
   map_option (map fst \<circ> fst \<circ> snd) (sntpex_client_timestamp_get NonNULL NonNULL demo_system) =
     Some [UD_SNTP_CLIENT_STATE_OPEN, UD_SNTP_CLIENT_STATE_SENDING,
           UD_SNTP_CLIENT_STATE_RECEIVING, UD_SNTP_CLIENT_STATE_HANDLING_RSP] \<and>
   map_option fst (sntpex_client_timestamp_get NonNULL NonNULL send_fails_system) =
     Some SNTPEX_ERR_TX \<and>
   map_option (map fst \<circ> fst \<circ> snd)
     (sntpex_client_timestamp_get NonNULL NonNULL send_fails_system) =
     Some [UD_SNTP_CLIENT_STATE_OPEN, UD_SNTP_CLIENT_STATE_SENDING, UD_SNTP_CLIENT_STATE_CLOSE]"
proof -
  have a: "map_option fst (sntpex_client_timestamp_get NonNULL NonNULL demo_system) =
     Some SNTPEX_SUCCESS" by code_simp
  then obtain tr s' where r: "sntpex_client_timestamp_get NonNULL NonNULL demo_system =
      Some (SNTPEX_SUCCESS, tr, s')" by auto
  have o: "state (client demo_system) = UD_SNTP_CLIENT_STATE_OPEN"
    by (simp add: demo_system_def demo_client_def)
  from handlers_run_in_order [OF r] o have
    b: "map fst tr = [UD_SNTP_CLIENT_STATE_OPEN, UD_SNTP_CLIENT_STATE_SENDING,
           UD_SNTP_CLIENT_STATE_RECEIVING, UD_SNTP_CLIENT_STATE_HANDLING_RSP]" by simp
  have c: "map_option fst (sntpex_client_timestamp_get NonNULL NonNULL send_fails_system) =
     Some SNTPEX_ERR_TX" by code_simp
  then obtain tr2 s2 where r2: "sntpex_client_timestamp_get NonNULL NonNULL send_fails_system =
      Some (SNTPEX_ERR_TX, tr2, s2)" by auto
  have o2: "state (client send_fails_system) = UD_SNTP_CLIENT_STATE_OPEN"
    by (simp add: send_fails_system_def demo_system_def demo_client_def)
  have l2: "map_option (length \<circ> fst \<circ> snd)
     (sntpex_client_timestamp_get NonNULL NonNULL send_fails_system) = Some 3" by code_simp
  with r2 have "length tr2 = 3" by simp
  with handlers_run_in_order [OF r2] o2 have
    d: "map fst tr2 = [UD_SNTP_CLIENT_STATE_OPEN, UD_SNTP_CLIENT_STATE_SENDING,
           UD_SNTP_CLIENT_STATE_CLOSE]" by simp
  from a o b c d r r2 show ?thesis by simp
qed

text \<open>
  C7, as stated, fails: with a non-NULL handle whose socket is open and a NULL record
  the call returns NullArgument before the state machine runs; the descriptor stays
  open and the state stays Sending.
\<close>

theorem null_record_keeps_transport_open_counterexample:
  "sntpex_client_timestamp_get NonNULL NULL open_socket_system =
     Some (SNTPEX_ERR_NULL_PTR, [], open_socket_system) \<and>
   sock (client open_socket_system) = Some \<lparr>fd = 3\<rparr> \<and>
   open_fds open_socket_system = [3] \<and>
   state (client open_socket_system) = UD_SNTP_CLIENT_STATE_SENDING"
  by (simp add: sntpex_client_timestamp_get_def open_socket_system_def demo_system_def
        demo_client_def)

text \<open>
  C7, amended: whenever the call, given a non-NULL handle with an attached socket and a
  non-NULL record, returns a code other than Success, the receive event is unregistered
  (its bit, the captured time and the callback are cleared), the Closing handler has run
  last and succeeded, the descriptor of the handle is the sentinel -1, the state is Open,
  and, when the handle's descriptor was the only one the transport held open, the
  transport holds none. The code returned is the code of the last handler the loop ran;
  every handler before it returned Success and no handler ran twice.
\<close>

theorem error_path_closes_transport:
  assumes "sntpex_client_timestamp_get NonNULL NonNULL s = Some (rc, tr, s')"
    and "rc \<noteq> SNTPEX_SUCCESS"
    and "sock (client s) \<noteq> None"
  shows "SR (xsntpAsynchEvent s') AND exlibSNTP_SOFTSR_RECV_BIT = 0 \<and>
         timestamp (xsntpAsynchEvent s') = 0 \<and>
         event_cb (xsntpAsynchEvent s') = None \<and>
         map_option fd (sock (client s')) = Some (- 1) \<and>
         state (client s') = UD_SNTP_CLIENT_STATE_OPEN \<and>
         (owns_fd s \<longrightarrow> open_fds s' = []) \<and>
         last tr = (UD_SNTP_CLIENT_STATE_CLOSE, SNTPEX_SUCCESS) \<and>
         snd (last (butlast tr)) = rc \<and>
         list_all (\<lambda>e. snd e = SNTPEX_SUCCESS) (butlast (butlast tr)) \<and>
         distinct (map fst (butlast tr))"
proof -
  from assms(1) obtain tick s1 tr0 s3 where
    k: "get_os_tick s = Some (tick, s1)" and
    l: "fsm_loop SNTPEX_SUCCESS [] (s1\<lparr>client := (client s1)\<lparr>startTime := tick\<rparr>\<rparr>) =
       Some (rc, tr0, s3)" and
    g: "rc = SNTPEX_SUCCESS \<longrightarrow> tr = tr0 \<and>
       s' = s3\<lparr>client := (client s3)\<lparr>state := UD_SNTP_CLIENT_STATE_SENDING\<rparr>\<rparr>" and
    e: "rc \<noteq> SNTPEX_SUCCESS \<longrightarrow> (\<exists>rc_close.
       sFct_sntp_CloseConnection (prv_utility_unregister_event exlibSNTP_SOFTSR_RECV_BIT s3)
         = Some (rc_close, s') \<and> tr = tr0 @ [(UD_SNTP_CLIENT_STATE_CLOSE, rc_close)])"
    by (rule timestamp_get_elim)
  let ?s2 = "s1\<lparr>client := (client s1)\<lparr>startTime := tick\<rparr>\<rparr>"
  let ?s4 = "prv_utility_unregister_event exlibSNTP_SOFTSR_RECV_BIT s3"
  from e assms(2) obtain rcc where
    c: "sFct_sntp_CloseConnection ?s4 = Some (rcc, s')" and
    t: "tr = tr0 @ [(UD_SNTP_CLIENT_STATE_CLOSE, rcc)]" by blast
  note fk = get_os_tick_frame [OF k]
  have k2: "sock (client ?s2) \<noteq> None" using fk assms(3) by simp
  have k3: "sock (client s3) \<noteq> None" by (rule fsm_loop_sock [OF l k2])
  then have k4: "sock (client ?s4) \<noteq> None"
    by (simp add: prv_utility_unregister_event_def)
  note cl = Close_sock [OF c k4]
  have ev: "xsntpAsynchEvent s' = (xsntpAsynchEvent s3)
      \<lparr>timestamp := 0, event_cb := None,
       SR := SR (xsntpAsynchEvent s3) AND NOT exlibSNTP_SOFTSR_RECV_BIT\<rparr>"
    using cl by (simp add: prv_utility_unregister_event_def)
  have a1: "SR (xsntpAsynchEvent s') AND exlibSNTP_SOFTSR_RECV_BIT = 0"
    by (simp add: ev and_not_and)
  have a2: "timestamp (xsntpAsynchEvent s') = 0" "event_cb (xsntpAsynchEvent s') = None"
    by (simp_all add: ev)
  have a3: "owns_fd s \<longrightarrow> open_fds s' = []"
  proof
    assume o: "owns_fd s"
    have "owns_fd ?s2 = owns_fd s" using fk by (intro owns_fd_cong) simp_all
    with o have "owns_fd ?s2" by simp
    then have "owns_fd s3" by (rule fsm_loop_owns_fd [OF l])
    moreover have "owns_fd ?s4 = owns_fd s3"
      by (intro owns_fd_cong) (simp_all add: prv_utility_unregister_event_def)
    ultimately have "owns_fd ?s4" by simp
    from Close_closes [OF c this] show "open_fds s' = []" by simp
  qed
  have st: "state (client ?s2) = state (client s)" using fk by simp
  from fsm_loop_trace [OF l refl] assms(2) have
    z: "tr0 \<noteq> []" "snd (last tr0) = rc"
       "list_all (\<lambda>e. snd e = SNTPEX_SUCCESS) (butlast tr0)"
       "map fst tr0 = take (length tr0) (path_from (state (client s)))"
    unfolding st by auto
  have d: "distinct (map fst tr0)"
    by (simp only: z(4) distinct_take distinct_path_from)
  have b: "butlast tr = tr0" using t by simp
  have "last tr = (UD_SNTP_CLIENT_STATE_CLOSE, SNTPEX_SUCCESS)" using t cl by simp
  with a1 a2 a3 cl z d b show ?thesis by simp
qed

text \<open>The failed transmission: socket closed, state Open, nothing left open.\<close>

theorem error_path_closes_transport_witness:
  "map_option fst (sntpex_client_timestamp_get NonNULL NonNULL send_fails_system) =
     Some SNTPEX_ERR_TX \<and>
   sock (client send_fails_system) = Some \<lparr>fd = - 1\<rparr> \<and>
   map_option (map_option fd \<circ> sock \<circ> client \<circ> snd \<circ> snd)
     (sntpex_client_timestamp_get NonNULL NonNULL send_fails_system) = Some (Some (- 1)) \<and>
   map_option (state \<circ> client \<circ> snd \<circ> snd)
     (sntpex_client_timestamp_get NonNULL NonNULL send_fails_system) =
     Some UD_SNTP_CLIENT_STATE_OPEN \<and>
   map_option (open_fds \<circ> snd \<circ> snd)
     (sntpex_client_timestamp_get NonNULL NonNULL send_fails_system) = Some []"
proof -
  have a: "map_option fst (sntpex_client_timestamp_get NonNULL NonNULL send_fails_system) =
     Some SNTPEX_ERR_TX" by code_simp
  then obtain tr s' where r: "sntpex_client_timestamp_get NonNULL NonNULL send_fails_system =
      Some (SNTPEX_ERR_TX, tr, s')" by auto
  have k: "sock (client send_fails_system) = Some \<lparr>fd = - 1\<rparr>"
    by (simp add: send_fails_system_def demo_system_def demo_client_def)
  have o: "owns_fd send_fails_system"
    by (simp add: owns_fd_def send_fails_system_def demo_system_def demo_client_def)
  have n: "SNTPEX_ERR_TX \<noteq> SNTPEX_SUCCESS" by simp
  have m: "sock (client send_fails_system) \<noteq> None" using k by simp
  from error_path_closes_transport [OF r n m] o have
    "map_option fd (sock (client s')) = Some (- 1)"
    "state (client s') = UD_SNTP_CLIENT_STATE_OPEN" "open_fds s' = []" by simp_all
  with a k r show ?thesis by simp
qed

text \<open>
  C4, as stated, fails: the request encoder sets \<open>payloadLen\<close> to the size of the
  packed request record, 48 bytes, not to the 68 bytes of the buffer; it is 48 after a
  whole successful call as well.
\<close>

theorem payloadLen_is_48_counterexample:
  "map_option (payloadLen \<circ> client \<circ> snd) (prv_utility_build_request demo_system) = Some 48 \<and>
   exlibSNTP_TIME_MESSAGE_MAX_SIZE = 68 \<and>
   map_option (payloadLen \<circ> client \<circ> snd \<circ> snd)
     (sntpex_client_timestamp_get NonNULL NonNULL demo_system) = Some 48"
  by code_simp

lemma fsm_loop_payloadLen:
  assumes l: "fsm_loop SNTPEX_SUCCESS tr s = Some (SNTPEX_SUCCESS, tr', s')"
    and st: "state (client s) = UD_SNTP_CLIENT_STATE_OPEN \<or>
             state (client s) = UD_SNTP_CLIENT_STATE_SENDING \<or>
             state (client s) = UD_SNTP_CLIENT_STATE_CLOSE"
  shows "payloadLen (client s') = sizeof_x_sntp_request"
proof -
  let ?late = "\<lambda>q. q = UD_SNTP_CLIENT_STATE_RECEIVING \<or> q = UD_SNTP_CLIENT_STATE_HANDLING_RSP \<or>
      q = UD_SNTP_CLIENT_STATE_COMPLETE"
  let ?I = "\<lambda>r (u :: system). r = SNTPEX_SUCCESS \<longrightarrow> ?late (state (client u)) \<longrightarrow>
      payloadLen (client u) = sizeof_x_sntp_request"
  have "?I SNTPEX_SUCCESS s'"
  proof (rule fsm_loop_invariant [where I = ?I, OF _ l])
    fix u rc1 u1
    assume i: "?I SNTPEX_SUCCESS u"
      and n: "state (client u) \<noteq> UD_SNTP_CLIENT_STATE_COMPLETE"
      and h: "sntp_sapi (state (client u)) u = Some (rc1, u1)"
    show "?I rc1 u1"
    proof (intro impI)
      assume ok: "rc1 = SNTPEX_SUCCESS" and late: "?late (state (client u1))"
      from h ok have nx: "state (client u1) = fsm_next (state (client u))"
        by (simp add: sapi_next)
      show "payloadLen (client u1) = sizeof_x_sntp_request"
      proof (cases "state (client u)")
        case UD_SNTP_CLIENT_STATE_OPEN
        with nx late show ?thesis by simp
      next
        case UD_SNTP_CLIENT_STATE_CLOSE
        with nx late show ?thesis by simp
      next
        case UD_SNTP_CLIENT_STATE_SENDING
        with h Send_frame [of u rc1 u1] show ?thesis by simp
      next
        case UD_SNTP_CLIENT_STATE_RECEIVING
        with h Receive_frame [of u rc1 u1] i show ?thesis by simp
      next
        case UD_SNTP_CLIENT_STATE_HANDLING_RSP
        with h Handling_frame [of u rc1 u1] i show ?thesis by simp
      next
        case UD_SNTP_CLIENT_STATE_COMPLETE
        with n show ?thesis by simp
      qed
    qed
  next
    from st show "?I SNTPEX_SUCCESS s" by auto
  qed
  moreover from fsm_loop_trace [OF l refl]
  have "state (client s') = UD_SNTP_CLIENT_STATE_COMPLETE" by auto
  ultimately show ?thesis by simp
qed

lemma Receive_accepts_full_length:
  assumes "sFct_sntp_ReceiveResponse s = Some (SNTPEX_SUCCESS, s')"
  shows "\<exists>t s2 s3.
     get_os_tick (prv_utility_register_event exlibSNTP_SOFTSR_RECV_BIT None s) = Some (t, s2) \<and>
     recv_loop t s2 = Some (payloadLen (client s), s3)"
proof -
  let ?s1 = "prv_utility_register_event exlibSNTP_SOFTSR_RECV_BIT None s"
  from assms obtain t s2 r s3 where
    k: "get_os_tick ?s1 = Some (t, s2)" and
    l: "recv_loop t s2 = Some (r, s3)" and
    e: "(SNTPEX_SUCCESS, s') =
      (if SLNETERR_BSD_EAGAIN = r then (SNTPEX_ERR_TIMEOUT, s3)
       else if sint r < 0 then (SNTPEX_ERR_RX, s3)
       else if r \<noteq> payloadLen (client s3) then (SNTPEX_ERR_INVALID_MESSAGE, s3)
       else if timestamp (xsntpAsynchEvent s3) = 0 then (SNTPEX_ERR_INVALID_MESSAGE, s3)
       else (SNTPEX_SUCCESS,
         (prv_utility_unregister_event exlibSNTP_SOFTSR_RECV_BIT
            (s3\<lparr>xTimestampList := (xTimestampList s3)
                    \<lparr>reference64_ts := timestamp (xsntpAsynchEvent s3)\<rparr>\<rparr>))
         \<lparr>client := (client s3)\<lparr>state := UD_SNTP_CLIENT_STATE_HANDLING_RSP\<rparr>\<rparr>))"
    by (rule Receive_elim)
  from e have r: "r = payloadLen (client s3)" by (auto split: if_splits)
  have "client s2 = client s"
    using get_os_tick_frame [OF k] by (simp add: prv_utility_register_event_def)
  with recv_loop_frame [OF l] have c3: "client s3 = (client s)\<lparr>payload := payload (client s3)\<rparr>"
    by simp
  have "payloadLen (client s3) = payloadLen (client s)" by (subst c3) simp
  with r have "r = payloadLen (client s)" by simp
  with k l show ?thesis by blast
qed

text \<open>
  C4, amended: once a request is built, \<open>payloadLen\<close> is the size of the request
  record, 48 bytes (the header without the 20 bytes of optional authentication data the
  68-byte buffer has room for). The Sending state sets it, every other handler keeps
  it, and it is 48 after a successful call that started in Open or Sending. The
  Receiving state accepts a reply only when the last read returned exactly
  \<open>payloadLen\<close> bytes.
\<close>

theorem payloadLen_is_request_size:
  "sizeof_x_sntp_request = 48 \<and>
   (\<forall>rc s'. prv_utility_build_request s = Some (rc, s') \<longrightarrow>
      payloadLen (client s') = sizeof_x_sntp_request) \<and>
   (\<forall>rc s'. sFct_sntp_SendRequest s = Some (rc, s') \<longrightarrow>
      payloadLen (client s') = sizeof_x_sntp_request) \<and>
   (\<forall>rc s'. sFct_sntp_ReceiveResponse s = Some (rc, s') \<longrightarrow>
      payloadLen (client s') = payloadLen (client s) \<and>
      (rc = SNTPEX_SUCCESS \<longrightarrow> (\<exists>t s2 s3.
         get_os_tick (prv_utility_register_event exlibSNTP_SOFTSR_RECV_BIT None s) = Some (t, s2) \<and>
         recv_loop t s2 = Some (payloadLen (client s), s3)))) \<and>
   (\<forall>rc s'. sFct_sntp_HandlingResponse s = Some (rc, s') \<longrightarrow>
      payloadLen (client s') = payloadLen (client s)) \<and>
   (\<forall>rc s'. sFct_sntp_CloseConnection s = Some (rc, s') \<longrightarrow>
      payloadLen (client s') = payloadLen (client s)) \<and>
   (\<forall>rc s'. sFct_sntp_OpenConnection s = Some (rc, s') \<longrightarrow>
      payloadLen (client s') = payloadLen (client s)) \<and>
   (\<forall>tr s'. sntpex_client_timestamp_get NonNULL NonNULL s = Some (SNTPEX_SUCCESS, tr, s') \<and>
      (state (client s) = UD_SNTP_CLIENT_STATE_OPEN \<or>
       state (client s) = UD_SNTP_CLIENT_STATE_SENDING) \<longrightarrow>
      payloadLen (client s') = sizeof_x_sntp_request)"
proof (intro conjI allI impI)
  show "sizeof_x_sntp_request = 48" by (simp add: sizeof_x_sntp_request_def)
next
  fix rc s' assume "prv_utility_build_request s = Some (rc, s')"
  from build_request_frame [OF this]
  show "payloadLen (client s') = sizeof_x_sntp_request" by simp
next
  fix rc s' assume "sFct_sntp_SendRequest s = Some (rc, s')"
  from Send_frame [OF this]
  show "payloadLen (client s') = sizeof_x_sntp_request" by simp
next
  fix rc s' assume "sFct_sntp_ReceiveResponse s = Some (rc, s')"
  from Receive_frame [OF this]
  show "payloadLen (client s') = payloadLen (client s)" by simp
next
  fix rc s' assume "sFct_sntp_ReceiveResponse s = Some (rc, s')" and "rc = SNTPEX_SUCCESS"
  then have "sFct_sntp_ReceiveResponse s = Some (SNTPEX_SUCCESS, s')" by simp
  then show "\<exists>t s2 s3.
         get_os_tick (prv_utility_register_event exlibSNTP_SOFTSR_RECV_BIT None s) = Some (t, s2) \<and>
         recv_loop t s2 = Some (payloadLen (client s), s3)"
    by (rule Receive_accepts_full_length)
next
  fix rc s' assume "sFct_sntp_HandlingResponse s = Some (rc, s')"
  from Handling_frame [OF this]
  show "payloadLen (client s') = payloadLen (client s)" by simp
next
  fix rc s' assume "sFct_sntp_CloseConnection s = Some (rc, s')"
  from Close_frame [OF this]
  show "payloadLen (client s') = payloadLen (client s)" by simp
next
  fix rc s' assume "sFct_sntp_OpenConnection s = Some (rc, s')"
  from Open_frame [OF this]
  show "payloadLen (client s') = payloadLen (client s)" by simp
next
  fix tr s'
  assume a: "sntpex_client_timestamp_get NonNULL NonNULL s = Some (SNTPEX_SUCCESS, tr, s') \<and>
      (state (client s) = UD_SNTP_CLIENT_STATE_OPEN \<or>
       state (client s) = UD_SNTP_CLIENT_STATE_SENDING)"
  then obtain tick s1 tr0 s3 where
    k: "get_os_tick s = Some (tick, s1)" and
    l: "fsm_loop SNTPEX_SUCCESS [] (s1\<lparr>client := (client s1)\<lparr>startTime := tick\<rparr>\<rparr>) =
       Some (SNTPEX_SUCCESS, tr0, s3)" and
    g: "SNTPEX_SUCCESS = SNTPEX_SUCCESS \<longrightarrow> tr = tr0 \<and>
       s' = s3\<lparr>client := (client s3)\<lparr>state := UD_SNTP_CLIENT_STATE_SENDING\<rparr>\<rparr>" and
    e: "SNTPEX_SUCCESS \<noteq> SNTPEX_SUCCESS \<longrightarrow> (\<exists>rc_close.
       sFct_sntp_CloseConnection (prv_utility_unregister_event exlibSNTP_SOFTSR_RECV_BIT s3)
         = Some (rc_close, s') \<and> tr = tr0 @ [(UD_SNTP_CLIENT_STATE_CLOSE, rc_close)])"
    using timestamp_get_elim [of s SNTPEX_SUCCESS tr s'] by blast
  have "state (client (s1\<lparr>client := (client s1)\<lparr>startTime := tick\<rparr>\<rparr>)) = state (client s)"
    using get_os_tick_frame [OF k] by simp
  with a have "state (client (s1\<lparr>client := (client s1)\<lparr>startTime := tick\<rparr>\<rparr>)) =
        UD_SNTP_CLIENT_STATE_OPEN \<or>
      state (client (s1\<lparr>client := (client s1)\<lparr>startTime := tick\<rparr>\<rparr>)) =
        UD_SNTP_CLIENT_STATE_SENDING \<or>
      state (client (s1\<lparr>client := (client s1)\<lparr>startTime := tick\<rparr>\<rparr>)) =
        UD_SNTP_CLIENT_STATE_CLOSE" by auto
  from fsm_loop_payloadLen [OF l this] g
  show "payloadLen (client s') = sizeof_x_sntp_request" by simp
qed

text \<open>After the Sending state alone, and after the whole successful exchange.\<close>

theorem payloadLen_is_request_size_witness:
  "map_option fst (sFct_sntp_SendRequest open_socket_system) = Some SNTPEX_SUCCESS \<and>
   map_option (payloadLen \<circ> client \<circ> snd) (sFct_sntp_SendRequest open_socket_system) = Some 48 \<and>
   map_option fst (sntpex_client_timestamp_get NonNULL NonNULL demo_system) =
     Some SNTPEX_SUCCESS \<and>
   map_option (payloadLen \<circ> client \<circ> snd \<circ> snd)
     (sntpex_client_timestamp_get NonNULL NonNULL demo_system) = Some 48"
proof -
  note T = payloadLen_is_request_size
  have a: "map_option fst (sFct_sntp_SendRequest open_socket_system) = Some SNTPEX_SUCCESS"
    by code_simp
  then obtain s' where r: "sFct_sntp_SendRequest open_socket_system = Some (SNTPEX_SUCCESS, s')"
    by auto
  with T [of open_socket_system] have b: "payloadLen (client s') = 48" by simp
  have c: "map_option fst (sntpex_client_timestamp_get NonNULL NonNULL demo_system) =
     Some SNTPEX_SUCCESS" by code_simp
  then obtain tr s2 where r2: "sntpex_client_timestamp_get NonNULL NonNULL demo_system =
      Some (SNTPEX_SUCCESS, tr, s2)" by auto
  have o: "state (client demo_system) = UD_SNTP_CLIENT_STATE_OPEN"
    by (simp add: demo_system_def demo_client_def)
  from T [of demo_system] r2 o have d: "payloadLen (client s2) = 48" by simp
  from a b c d r r2 show ?thesis by simp
qed

end
